theory Spec2Isabelle
  imports Complex_Main
begin

section \<open>Python strings\<close>

text \<open>
  A Python \<open>str\<close> is a sequence of Unicode code points; it is modelled as a list of
  natural numbers, so that the bullet U+2022 of the model's replies is one element.
  \<open>py\<close> embeds an ASCII literal.
\<close>

type_synonym pystr = "nat list"

abbreviation py :: "string \<Rightarrow> pystr" where
  "py s \<equiv> map of_char s"

definition bullet :: nat where
  "bullet = 8226"

definition newline :: nat where
  "newline = 10"

definition comma :: nat where
  "comma = 44"

text \<open>
  \<open>str.isspace\<close> on one code point: the ASCII controls 9..13 and 28..31, the space,
  and the Unicode separators NEL, NBSP, Ogham space, U+2000..U+200A, the line and
  paragraph separators, U+202F, U+205F and U+3000.
\<close>

definition isspace :: "nat \<Rightarrow> bool" where
  "isspace c \<longleftrightarrow>
     (9 \<le> c \<and> c \<le> 13) \<or> (28 \<le> c \<and> c \<le> 32) \<or> c = 133 \<or> c = 160 \<or> c = 5760 \<or>
     (8192 \<le> c \<and> c \<le> 8202) \<or> c = 8232 \<or> c = 8233 \<or> c = 8239 \<or> c = 8287 \<or> c = 12288"

definition lstrip :: "pystr \<Rightarrow> pystr" where
  "lstrip s = dropWhile isspace s"

definition rstrip :: "pystr \<Rightarrow> pystr" where
  "rstrip s = rev (dropWhile isspace (rev s))"

definition strip :: "pystr \<Rightarrow> pystr" where
  "strip s = rstrip (lstrip s)"

text \<open>\<open>s.lstrip(chars)\<close>: drop leading code points that occur in \<open>chars\<close>.\<close>

definition lstrip_chars :: "pystr \<Rightarrow> pystr \<Rightarrow> pystr" where
  "lstrip_chars chars s = dropWhile (\<lambda>c. c \<in> set chars) s"

text \<open>\<open>s.split(sep)\<close> for a separator of one code point; \<open>''.split(sep)\<close> is \<open>['']\<close>.\<close>

fun split_on :: "nat \<Rightarrow> pystr \<Rightarrow> pystr list" where
  "split_on sep [] = [[]]"
| "split_on sep (c # cs) =
     (if c = sep then [] # split_on sep cs
      else (case split_on sep cs of
              [] \<Rightarrow> [[c]]
            | w # ws \<Rightarrow> (c # w) # ws))"

definition startswith :: "pystr \<Rightarrow> pystr \<Rightarrow> bool" where
  "startswith s p \<longleftrightarrow> take (length p) s = p"

text \<open>
  \<open>s.replace(old, '')\<close> for a non-empty \<open>old\<close>: every occurrence, scanning from the
  left, is removed.
\<close>

function remove_all :: "pystr \<Rightarrow> pystr \<Rightarrow> pystr" where
  "remove_all old [] = []"
| "remove_all old (c # cs) =
     (if old \<noteq> [] \<and> startswith (c # cs) old
      then remove_all old (drop (length old) (c # cs))
      else c # remove_all old cs)"
  by pat_completeness auto
termination
  by (relation "measure (\<lambda>(old, s). length s)") (auto simp: neq_Nil_conv)

text \<open>
  \<open>str.lower\<close> and \<open>str.upper\<close> on the ASCII letters. Code points outside ASCII are
  left as they are: the Unicode case tables are not part of the program.
\<close>

definition lower_cp :: "nat \<Rightarrow> nat" where
  "lower_cp c = (if 65 \<le> c \<and> c \<le> 90 then c + 32 else c)"

definition upper_cp :: "nat \<Rightarrow> nat" where
  "upper_cp c = (if 97 \<le> c \<and> c \<le> 122 then c - 32 else c)"

definition lower :: "pystr \<Rightarrow> pystr" where
  "lower s = map lower_cp s"

definition upper :: "pystr \<Rightarrow> pystr" where
  "upper s = map upper_cp s"

text \<open>The operator \<open>a in b\<close> on strings: \<open>a\<close> occurs in \<open>b\<close> as a contiguous run.\<close>

fun contains :: "pystr \<Rightarrow> pystr \<Rightarrow> bool" where
  "contains [] a = (a = [])"
| "contains (c # cs) a = (startswith (c # cs) a \<or> contains cs a)"

text \<open>
  The decimal digits of Unicode (category Nd, Unicode 14) come in runs of ten: the list
  holds the code point of the zero of each run. \<open>decimal c\<close> is the value of the digit
  \<open>c\<close>, as \<open>unicodedata.decimal\<close> gives it.
\<close>

definition decimal_zeros :: "nat list" where
  "decimal_zeros =
     [48, 1632, 1776, 1984, 2406, 2534, 2662, 2790, 2918, 3046, 3174, 3302, 3430, 3558, 3664,
      3792, 3872, 4160, 4240, 6112, 6160, 6470, 6608, 6784, 6800, 6992, 7088, 7232, 7248,
      42528, 43216, 43264, 43472, 43504, 43600, 44016, 65296, 66720, 68912, 69734, 69872,
      69942, 70096, 70384, 70736, 70864, 71248, 71360, 71472, 71904, 72016, 72784, 73040,
      73120, 92768, 92864, 93008, 120782, 120792, 120802, 120812, 120822, 123200, 123632,
      125264, 130032]"

definition decimal :: "nat \<Rightarrow> nat option" where
  "decimal c =
     (case find (\<lambda>z. z \<le> c \<and> c < z + 10) decimal_zeros of
        None \<Rightarrow> None
      | Some z \<Rightarrow> Some (c - z))"

text \<open>The digits that \<open>strptime\<close> is modelled with are the ASCII ones.\<close>

definition isdigit :: "nat \<Rightarrow> bool" where
  "isdigit c \<longleftrightarrow> 48 \<le> c \<and> c \<le> 57"

text \<open>
  \<open>int(s)\<close> for a string: surrounding whitespace is ignored, then an optional sign and
  decimal digits of any script, where single underscores may separate digits. Anything
  else raises ValueError, here \<open>None\<close>, and so does a text of more than 4300 digits (the
  default of \<open>sys.get_int_max_str_digits\<close>; underscores are not counted).
\<close>

definition MAX_STR_DIGITS :: nat where
  "MAX_STR_DIGITS = 4300"

fun digits_value :: "nat \<Rightarrow> pystr \<Rightarrow> nat option" where
  "digits_value acc [] = Some acc"
| "digits_value acc (c # cs) =
     (case decimal c of
        Some d \<Rightarrow> digits_value (10 * acc + d) cs
      | None \<Rightarrow>
          if c = 95 \<and> (case cs of [] \<Rightarrow> False | d # _ \<Rightarrow> decimal d \<noteq> None)
          then digits_value acc cs
          else None)"

definition unsigned_value :: "pystr \<Rightarrow> nat option" where
  "unsigned_value s =
     (case s of
        [] \<Rightarrow> None
      | c # _ \<Rightarrow>
          if decimal c \<noteq> None \<and> length (filter (\<lambda>x. x \<noteq> 95) s) \<le> MAX_STR_DIGITS
          then digits_value 0 s
          else None)"

definition py_int :: "pystr \<Rightarrow> int option" where
  "py_int s =
     (case strip s of
        [] \<Rightarrow> None
      | c # cs \<Rightarrow>
          if c = 45 then map_option (\<lambda>n. - int n) (unsigned_value cs)
          else if c = 43 then map_option int (unsigned_value cs)
          else map_option int (unsigned_value (c # cs)))"

section \<open>Errors\<close>

text \<open>
  The exceptions the program raises or meets. \<open>ValueError\<close> carries which of the
  program's own \<open>raise ValueError(...)\<close> statements it comes from, or that it comes from
  \<open>strptime\<close>; \<open>UpdateFailed\<close> is the
  plain \<open>Exception\<close> raised by the Compressor when the write-back reports failure.
\<close>

datatype reason = ApplicantNotFound | NoCompressedJSON | MissingRequiredData | DateFormat

datatype error =
    ValueError reason
  | ValidationError
  | AttributeError
  | TypeError
  | JSONDecodeError
  | TransportError
  | UpdateFailed

section \<open>The reply parser (\<open>llm_evaluation.py\<close>)\<close>

text \<open>
  \<open>LLMEvaluation\<close> of \<open>models.py\<close>. Its \<open>score\<close> field is declared with \<open>ge=1, le=10\<close>:
  constructing the model with a score outside the range raises a ValidationError.
\<close>

record LLMEvaluation =
  summary :: pystr
  score :: int
  issues :: "pystr list"
  follow_ups :: "pystr list"

definition new_LLMEvaluation ::
  "pystr \<Rightarrow> int \<Rightarrow> pystr list \<Rightarrow> pystr list \<Rightarrow> error + LLMEvaluation" where
  "new_LLMEvaluation s n is fs =
     (if 1 \<le> n \<and> n \<le> 10
      then Inr \<lparr>summary = s, score = n, issues = is, follow_ups = fs\<rparr>
      else Inl ValidationError)"

text \<open>The local variables of \<open>parse_llm_response\<close>, with their initial values.\<close>

definition initial_vars :: LLMEvaluation where
  "initial_vars = \<lparr>summary = [], score = 5, issues = [], follow_ups = []\<rparr>"

text \<open>One iteration of the loop over the lines of the reply.\<close>

definition parse_line :: "LLMEvaluation \<Rightarrow> pystr \<Rightarrow> LLMEvaluation" where
  "parse_line vars line0 =
     (let line = strip line0 in
      if startswith line (py ''Summary:'') then
        vars\<lparr>summary := strip (remove_all (py ''Summary:'') line)\<rparr>
      else if startswith line (py ''Score:'') then
        vars\<lparr>score := (case py_int (strip (remove_all (py ''Score:'') line)) of
                          Some n \<Rightarrow> n
                        | None \<Rightarrow> 5)\<rparr>
      else if startswith line (py ''Issues:'') then
        (let issues_text = strip (remove_all (py ''Issues:'') line) in
         if lower issues_text \<noteq> py ''none''
         then vars\<lparr>issues := map strip (split_on comma issues_text)\<rparr>
         else vars)
      else if startswith line (py ''Follow-Ups:'') then
        (let follow_ups_text = strip (remove_all (py ''Follow-Ups:'') line) in
         if follow_ups_text \<noteq> []
         then vars\<lparr>follow_ups :=
                map (\<lambda>f. strip (lstrip_chars [bullet] (strip f)))
                  (filter (\<lambda>f. strip f \<noteq> []) (split_on newline follow_ups_text))\<rparr>
         else vars)
      else vars)"

definition parse_lines :: "pystr \<Rightarrow> LLMEvaluation" where
  "parse_lines response = foldl parse_line initial_vars (split_on newline (strip response))"

text \<open>The evaluation returned from the \<open>except\<close> branch.\<close>

definition fallback_evaluation :: LLMEvaluation where
  "fallback_evaluation =
     \<lparr>summary = py ''Error parsing LLM response'', score = 5,
      issues = [py ''LLM response parsing failed''],
      follow_ups = [py ''Please manually review this applicant'']\<rparr>"

definition parse_llm_response :: "pystr \<Rightarrow> LLMEvaluation" where
  "parse_llm_response response =
     (let vars = parse_lines response in
      case new_LLMEvaluation
             (if summary vars \<noteq> [] then summary vars else py ''No summary provided'')
             (score vars) (issues vars) (follow_ups vars) of
        Inr evaluation \<Rightarrow> evaluation
      | Inl e \<Rightarrow> fallback_evaluation)"





section \<open>JSON values and the record store (\<open>airtable_client.py\<close>)\<close>

text \<open>
  The values that \<open>json.loads\<close> returns and that the cells of the store hold. A Python
  \<open>float\<close> is modelled by the rational number it stands for: the arithmetic of the model
  is exact. A dictionary is an association list read with \<open>map_of\<close>.
\<close>

datatype json =
    JNull
  | JBool bool
  | JInt int
  | JFloat rat
  | JStr pystr
  | JList "json list"
  | JDict "(string \<times> json) list"

text \<open>Python's truth value of an object, as tested by \<open>if not x\<close>.\<close>

fun truthy :: "json \<Rightarrow> bool" where
  "truthy JNull = False"
| "truthy (JBool b) = b"
| "truthy (JInt i) = (i \<noteq> 0)"
| "truthy (JFloat r) = (r \<noteq> 0)"
| "truthy (JStr s) = (s \<noteq> [])"
| "truthy (JList xs) = (xs \<noteq> [])"
| "truthy (JDict kvs) = (kvs \<noteq> [])"

text \<open>\<open>d.get(key, default)\<close> on a dictionary given as a map.\<close>

definition get_or :: "(string \<rightharpoonup> json) \<Rightarrow> string \<Rightarrow> json \<Rightarrow> json" where
  "get_or d key dflt = (case d key of None \<Rightarrow> dflt | Some v \<Rightarrow> v)"

text \<open>
  A row of a table: the identifier the store gave it and its cells by field name. The
  store holds the five tables, the next identifier it will give out, and whether it
  can be reached: every call to a table of an unreachable store raises.
\<close>

record row =
  row_id :: nat
  cells :: "string \<rightharpoonup> json"

datatype table =
  Applicants | PersonalDetailsTable | WorkExperienceTable | SalaryPreferencesTable
  | ShortlistedLeads

record store =
  reachable :: bool
  tables :: "table \<Rightarrow> row list"
  next_id :: nat

definition bind_result :: "error + 'a \<Rightarrow> ('a \<Rightarrow> error + 'b) \<Rightarrow> error + 'b" where
  "bind_result m f = (case m of Inl e \<Rightarrow> Inl e | Inr x \<Rightarrow> f x)"

definition APPLICANT_ID_FIELD :: string where
  "APPLICANT_ID_FIELD = ''Applicant ID''"

definition COMPRESSED_JSON_FIELD :: string where
  "COMPRESSED_JSON_FIELD = ''Compressed JSON''"

definition LLM_SUMMARY_FIELD :: string where
  "LLM_SUMMARY_FIELD = ''LLM Summary''"

definition LLM_SCORE_FIELD :: string where
  "LLM_SCORE_FIELD = ''LLM Score''"

definition LLM_FOLLOW_UPS_FIELD :: string where
  "LLM_FOLLOW_UPS_FIELD = ''LLM Follow-Ups''"

text \<open>
  \<open>table.all(formula="{Applicant ID}='...'")\<close>: the rows of the table whose applicant
  identifier is the given string, in the order of the table.
\<close>

definition matches :: "pystr \<Rightarrow> row \<Rightarrow> bool" where
  "matches applicant_id r \<longleftrightarrow> cells r APPLICANT_ID_FIELD = Some (JStr applicant_id)"

definition table_all_by_id :: "store \<Rightarrow> table \<Rightarrow> pystr \<Rightarrow> error + row list" where
  "table_all_by_id st t applicant_id =
     (if reachable st then Inr (filter (matches applicant_id) (tables st t))
      else Inl TransportError)"

definition table_all :: "store \<Rightarrow> table \<Rightarrow> error + row list" where
  "table_all st t = (if reachable st then Inr (tables st t) else Inl TransportError)"

text \<open>\<open>table.update(id, fields)\<close> overwrites the given cells of the row and keeps the others.\<close>

definition table_update :: "store \<Rightarrow> table \<Rightarrow> nat \<Rightarrow> (string \<times> json) list \<Rightarrow> error + store" where
  "table_update st t rid new_fields =
     (if reachable st
      then Inr (st\<lparr>tables := (tables st)
                  (t := map (\<lambda>r. if row_id r = rid
                                  then r\<lparr>cells := cells r ++ map_of new_fields\<rparr> else r)
                          (tables st t))\<rparr>)
      else Inl TransportError)"

definition table_create :: "store \<Rightarrow> table \<Rightarrow> (string \<times> json) list \<Rightarrow> error + store" where
  "table_create st t new_fields =
     (if reachable st
      then Inr (st\<lparr>tables := (tables st)
                  (t := tables st t @ [\<lparr>row_id = next_id st, cells = map_of new_fields\<rparr>]),
                next_id := Suc (next_id st)\<rparr>)
      else Inl TransportError)"

definition table_delete :: "store \<Rightarrow> table \<Rightarrow> nat \<Rightarrow> error + store" where
  "table_delete st t rid =
     (if reachable st
      then Inr (st\<lparr>tables := (tables st)(t := filter (\<lambda>r. row_id r \<noteq> rid) (tables st t))\<rparr>)
      else Inl TransportError)"

text \<open>\<open>records[0] if records else None\<close>\<close>

definition first_or_none :: "'a list \<Rightarrow> 'a option" where
  "first_or_none records = (case records of [] \<Rightarrow> None | r # _ \<Rightarrow> Some r)"

definition get_applicant_by_id :: "store \<Rightarrow> pystr \<Rightarrow> error + row option" where
  "get_applicant_by_id st applicant_id =
     bind_result (table_all_by_id st Applicants applicant_id) (\<lambda>records.
     Inr (first_or_none records))"

definition get_personal_details :: "store \<Rightarrow> pystr \<Rightarrow> error + row option" where
  "get_personal_details st applicant_id =
     bind_result (table_all_by_id st PersonalDetailsTable applicant_id) (\<lambda>records.
     Inr (first_or_none records))"

definition get_work_experience :: "store \<Rightarrow> pystr \<Rightarrow> error + row list" where
  "get_work_experience st applicant_id = table_all_by_id st WorkExperienceTable applicant_id"

definition get_salary_preferences :: "store \<Rightarrow> pystr \<Rightarrow> error + row option" where
  "get_salary_preferences st applicant_id =
     bind_result (table_all_by_id st SalaryPreferencesTable applicant_id) (\<lambda>records.
     Inr (first_or_none records))"

text \<open>
  The writing methods of the client catch every exception and report it as \<open>False\<close>;
  they return the flag and the store as they leave it.
\<close>

definition caught :: "store \<Rightarrow> error + store \<Rightarrow> bool \<times> store" where
  "caught st m = (case m of Inl e \<Rightarrow> (False, st) | Inr st' \<Rightarrow> (True, st'))"

definition update_fields_of_applicant ::
  "store \<Rightarrow> pystr \<Rightarrow> (string \<times> json) list \<Rightarrow> bool \<times> store" where
  "update_fields_of_applicant st applicant_id new_fields =
     (case get_applicant_by_id st applicant_id of
        Inl e \<Rightarrow> (False, st)
      | Inr None \<Rightarrow> (False, st)
      | Inr (Some applicant_record) \<Rightarrow>
          caught st (table_update st Applicants (row_id applicant_record) new_fields))"

definition update_compressed_json :: "store \<Rightarrow> pystr \<Rightarrow> pystr \<Rightarrow> bool \<times> store" where
  "update_compressed_json st applicant_id compressed_json =
     update_fields_of_applicant st applicant_id [(COMPRESSED_JSON_FIELD, JStr compressed_json)]"

definition update_llm_evaluation ::
  "store \<Rightarrow> pystr \<Rightarrow> pystr \<Rightarrow> int \<Rightarrow> pystr \<Rightarrow> bool \<times> store" where
  "update_llm_evaluation st applicant_id summ sc follow =
     update_fields_of_applicant st applicant_id
       [(LLM_SUMMARY_FIELD, JStr summ), (LLM_SCORE_FIELD, JInt sc),
        (LLM_FOLLOW_UPS_FIELD, JStr follow)]"

definition upsert_one ::
  "table \<Rightarrow> store \<Rightarrow> pystr \<Rightarrow> (string \<times> json) list \<Rightarrow> bool \<times> store" where
  "upsert_one t st applicant_id data =
     caught st
       (bind_result (table_all_by_id st t applicant_id) (\<lambda>records.
        case first_or_none records of
          Some existing_record \<Rightarrow> table_update st t (row_id existing_record) data
        | None \<Rightarrow> table_create st t ((APPLICANT_ID_FIELD, JStr applicant_id) # data)))"

definition upsert_personal_details ::
  "store \<Rightarrow> pystr \<Rightarrow> (string \<times> json) list \<Rightarrow> bool \<times> store" where
  "upsert_personal_details = upsert_one PersonalDetailsTable"

definition upsert_salary_preferences ::
  "store \<Rightarrow> pystr \<Rightarrow> (string \<times> json) list \<Rightarrow> bool \<times> store" where
  "upsert_salary_preferences = upsert_one SalaryPreferencesTable"

text \<open>The two loops of \<open>upsert_work_experience\<close>: delete every existing row, create the new ones.\<close>

fun delete_rows :: "store \<Rightarrow> table \<Rightarrow> row list \<Rightarrow> error + store" where
  "delete_rows st t [] = Inr st"
| "delete_rows st t (r # rs) =
     bind_result (table_delete st t (row_id r)) (\<lambda>st'. delete_rows st' t rs)"

fun create_rows :: "store \<Rightarrow> table \<Rightarrow> pystr \<Rightarrow> (string \<times> json) list list \<Rightarrow> error + store" where
  "create_rows st t applicant_id [] = Inr st"
| "create_rows st t applicant_id (entry # entries) =
     bind_result (table_create st t ((APPLICANT_ID_FIELD, JStr applicant_id) # entry))
       (\<lambda>st'. create_rows st' t applicant_id entries)"

definition upsert_work_experience ::
  "store \<Rightarrow> pystr \<Rightarrow> (string \<times> json) list list \<Rightarrow> bool \<times> store" where
  "upsert_work_experience st applicant_id experience_data =
     (case bind_result (get_work_experience st applicant_id) (\<lambda>existing_records.
           bind_result (delete_rows st WorkExperienceTable existing_records) (\<lambda>st'.
           create_rows st' WorkExperienceTable applicant_id experience_data)) of
        Inr st' \<Rightarrow> (True, st')
      | Inl e \<Rightarrow> (False, st))"

section \<open>The Canonical Document (\<open>models.py\<close>)\<close>

record PersonalDetails =
  full_name :: pystr
  email :: pystr
  location :: pystr
  linkedin :: "pystr option"

record WorkExperience =
  company :: pystr
  title :: pystr
  start_date :: pystr
  end_date :: "pystr option"
  technologies :: "pystr option"

record SalaryPreferences =
  preferred_rate :: rat
  minimum_rate :: rat
  currency :: pystr
  availability_hours :: int

record CompressedApplication =
  personal :: PersonalDetails
  experience :: "WorkExperience list"
  salary :: SalaryPreferences

text \<open>
  The declarations of \<open>models.py\<close> give every field a type and a description
  (\<open>Field(...)\<close>): no length and no bound. How pydantic validates a value against the
  types \<open>str\<close>, \<open>float\<close> and \<open>int\<close> is not part of the program, and which scalars of
  another type it converts (a number given as text, say) differs between its versions.
  The three scalar validators are therefore parameters of the validation of a document.
\<close>

record validators =
  str_validator :: "json \<Rightarrow> error + pystr"
  float_validator :: "json \<Rightarrow> error + rat"
  int_validator :: "json \<Rightarrow> error + int"

text \<open>A field declared with \<open>...\<close> is required; an \<open>Optional\<close> field may be missing or null.\<close>

definition required :: "(string \<rightharpoonup> json) \<Rightarrow> string \<Rightarrow> (json \<Rightarrow> error + 'a) \<Rightarrow> error + 'a" where
  "required d key validator =
     (case d key of None \<Rightarrow> Inl ValidationError | Some v \<Rightarrow> validator v)"

definition optional ::
  "(string \<rightharpoonup> json) \<Rightarrow> string \<Rightarrow> (json \<Rightarrow> error + 'a) \<Rightarrow> error + 'a option" where
  "optional d key validator =
     (case d key of
        None \<Rightarrow> Inr None
      | Some JNull \<Rightarrow> Inr None
      | Some v \<Rightarrow> bind_result (validator v) (\<lambda>x. Inr (Some x)))"

fun all_results :: "(error + 'a) list \<Rightarrow> error + 'a list" where
  "all_results [] = Inr []"
| "all_results (m # ms) =
     bind_result m (\<lambda>x. bind_result (all_results ms) (\<lambda>xs. Inr (x # xs)))"

definition validate_personal :: "validators \<Rightarrow> json \<Rightarrow> error + PersonalDetails" where
  "validate_personal V v =
     (case v of
        JDict kvs \<Rightarrow>
          bind_result (required (map_of kvs) ''full_name'' (str_validator V)) (\<lambda>n.
          bind_result (required (map_of kvs) ''email'' (str_validator V)) (\<lambda>e.
          bind_result (required (map_of kvs) ''location'' (str_validator V)) (\<lambda>l.
          bind_result (optional (map_of kvs) ''linkedin'' (str_validator V)) (\<lambda>li.
          Inr \<lparr>full_name = n, email = e, location = l, linkedin = li\<rparr>))))
      | _ \<Rightarrow> Inl ValidationError)"

definition validate_entry :: "validators \<Rightarrow> json \<Rightarrow> error + WorkExperience" where
  "validate_entry V v =
     (case v of
        JDict kvs \<Rightarrow>
          bind_result (required (map_of kvs) ''company'' (str_validator V)) (\<lambda>c.
          bind_result (required (map_of kvs) ''title'' (str_validator V)) (\<lambda>t.
          bind_result (required (map_of kvs) ''start_date'' (str_validator V)) (\<lambda>s.
          bind_result (optional (map_of kvs) ''end_date'' (str_validator V)) (\<lambda>e.
          bind_result (optional (map_of kvs) ''technologies'' (str_validator V)) (\<lambda>te.
          Inr \<lparr>company = c, title = t, start_date = s, end_date = e,
               technologies = te\<rparr>)))))
      | _ \<Rightarrow> Inl ValidationError)"

definition validate_salary :: "validators \<Rightarrow> json \<Rightarrow> error + SalaryPreferences" where
  "validate_salary V v =
     (case v of
        JDict kvs \<Rightarrow>
          bind_result (required (map_of kvs) ''preferred_rate'' (float_validator V)) (\<lambda>p.
          bind_result (required (map_of kvs) ''minimum_rate'' (float_validator V)) (\<lambda>m.
          bind_result (required (map_of kvs) ''currency'' (str_validator V)) (\<lambda>c.
          bind_result (required (map_of kvs) ''availability_hours'' (int_validator V)) (\<lambda>a.
          Inr \<lparr>preferred_rate = p, minimum_rate = m, currency = c,
               availability_hours = a\<rparr>))))
      | _ \<Rightarrow> Inl ValidationError)"

definition validate_experience :: "validators \<Rightarrow> json \<Rightarrow> error + WorkExperience list" where
  "validate_experience V v =
     (case v of JList xs \<Rightarrow> all_results (map (validate_entry V) xs)
      | _ \<Rightarrow> Inl ValidationError)"

text \<open>
  \<open>CompressedApplication(**data)\<close>: unpacking something that is not a dictionary is a
  TypeError; keys that the model does not declare are ignored.
\<close>

definition validate_document :: "validators \<Rightarrow> json \<Rightarrow> error + CompressedApplication" where
  "validate_document V data =
     (case data of
        JDict kvs \<Rightarrow>
          bind_result (required (map_of kvs) ''personal'' (validate_personal V)) (\<lambda>p.
          bind_result (required (map_of kvs) ''experience'' (validate_experience V)) (\<lambda>es.
          bind_result (required (map_of kvs) ''salary'' (validate_salary V)) (\<lambda>s.
          Inr \<lparr>personal = p, experience = es, salary = s\<rparr>)))
      | _ \<Rightarrow> Inl TypeError)"

text \<open>
  The validators that take exactly the declared type: a string for \<open>str\<close>, a float or an
  integer for \<open>float\<close>, an integer for \<open>int\<close>. Every version of pydantic accepts these
  values and leaves them as they are. The operations of the program are modelled with
  these validators; the documents they meet in the properties below are of the
  declared types.
\<close>

definition str_field :: "json \<Rightarrow> error + pystr" where
  "str_field v = (case v of JStr s \<Rightarrow> Inr s | _ \<Rightarrow> Inl ValidationError)"

definition float_field :: "json \<Rightarrow> error + rat" where
  "float_field v =
     (case v of JFloat r \<Rightarrow> Inr r | JInt i \<Rightarrow> Inr (of_int i) | _ \<Rightarrow> Inl ValidationError)"

definition int_field :: "json \<Rightarrow> error + int" where
  "int_field v = (case v of JInt i \<Rightarrow> Inr i | _ \<Rightarrow> Inl ValidationError)"

definition exact_validators :: validators where
  "exact_validators =
     \<lparr>str_validator = str_field, float_validator = float_field, int_validator = int_field\<rparr>"

definition new_PersonalDetails :: "json \<Rightarrow> error + PersonalDetails" where
  "new_PersonalDetails = validate_personal exact_validators"

definition new_WorkExperience :: "json \<Rightarrow> error + WorkExperience" where
  "new_WorkExperience = validate_entry exact_validators"

definition new_SalaryPreferences :: "json \<Rightarrow> error + SalaryPreferences" where
  "new_SalaryPreferences = validate_salary exact_validators"

definition new_CompressedApplication :: "json \<Rightarrow> error + CompressedApplication" where
  "new_CompressedApplication = validate_document exact_validators"

text \<open>The method \<open>.dict()\<close> of the models.\<close>

definition optional_json :: "pystr option \<Rightarrow> json" where
  "optional_json v = (case v of None \<Rightarrow> JNull | Some s \<Rightarrow> JStr s)"

definition personal_dict :: "PersonalDetails \<Rightarrow> json" where
  "personal_dict p =
     JDict [(''full_name'', JStr (full_name p)), (''email'', JStr (email p)),
            (''location'', JStr (location p)), (''linkedin'', optional_json (linkedin p))]"

definition experience_items :: "WorkExperience \<Rightarrow> (string \<times> json) list" where
  "experience_items w =
     [(''company'', JStr (company w)), (''title'', JStr (title w)),
      (''start_date'', JStr (start_date w)), (''end_date'', optional_json (end_date w)),
      (''technologies'', optional_json (technologies w))]"

definition experience_dict :: "WorkExperience \<Rightarrow> json" where
  "experience_dict w = JDict (experience_items w)"

definition salary_dict :: "SalaryPreferences \<Rightarrow> json" where
  "salary_dict s =
     JDict [(''preferred_rate'', JFloat (preferred_rate s)),
            (''minimum_rate'', JFloat (minimum_rate s)),
            (''currency'', JStr (currency s)),
            (''availability_hours'', JInt (availability_hours s))]"

definition app_dict :: "CompressedApplication \<Rightarrow> json" where
  "app_dict app =
     JDict [(''personal'', personal_dict (personal app)),
            (''experience'', JList (map experience_dict (experience app))),
            (''salary'', salary_dict (salary app))]"

text \<open>
  The stored document is JSON text. \<open>json.loads\<close> and \<open>json.dumps\<close> are library functions
  and are parameters of the model: \<open>loads\<close> gives \<open>None\<close> where \<open>json.loads\<close> raises.
  This is the step shared by the Decompressor and the Shortlist Evaluator: a string is
  parsed, any other value is taken as it is.
\<close>

definition parse_document :: "(pystr \<Rightarrow> json option) \<Rightarrow> json \<Rightarrow> error + json" where
  "parse_document loads compressed_json =
     (case compressed_json of
        JStr s \<Rightarrow> (case loads s of None \<Rightarrow> Inl JSONDecodeError | Some data \<Rightarrow> Inr data)
      | v \<Rightarrow> Inr v)"

text \<open>
  The common beginning of the Decompressor and the Shortlist Evaluator: find the
  applicant, read the document field, parse and validate it.
\<close>

definition stored_document ::
  "(pystr \<Rightarrow> json option) \<Rightarrow> store \<Rightarrow> pystr \<Rightarrow> error + CompressedApplication" where
  "stored_document loads st applicant_id =
     bind_result (get_applicant_by_id st applicant_id) (\<lambda>applicant_record.
     case applicant_record of
       None \<Rightarrow> Inl (ValueError ApplicantNotFound)
     | Some r \<Rightarrow>
         (case cells r COMPRESSED_JSON_FIELD of
            None \<Rightarrow> Inl (ValueError NoCompressedJSON)
          | Some compressed_json \<Rightarrow>
              if \<not> truthy compressed_json then Inl (ValueError NoCompressedJSON)
              else bind_result (parse_document loads compressed_json)
                     new_CompressedApplication))"

section \<open>The Compressor (\<open>json_compression.py\<close>)\<close>

definition compressed_data :: "row \<Rightarrow> row list \<Rightarrow> row \<Rightarrow> json" where
  "compressed_data personal_details work_experience salary_preferences =
     JDict
       [(''personal'', JDict
           [(''full_name'', get_or (cells personal_details) ''Full Name'' (JStr [])),
            (''email'', get_or (cells personal_details) ''Email'' (JStr [])),
            (''location'', get_or (cells personal_details) ''Location'' (JStr [])),
            (''linkedin'', get_or (cells personal_details) ''LinkedIn'' (JStr []))]),
        (''experience'', JList (map (\<lambda>r. JDict
           [(''company'', get_or (cells r) ''Company'' (JStr [])),
            (''title'', get_or (cells r) ''Title'' (JStr [])),
            (''start_date'', get_or (cells r) ''Start'' (JStr [])),
            (''end_date'', get_or (cells r) ''End'' (JStr [])),
            (''technologies'', get_or (cells r) ''Technologies'' (JStr []))])
           work_experience)),
        (''salary'', JDict
           [(''preferred_rate'', get_or (cells salary_preferences) ''Preferred Rate'' (JInt 0)),
            (''minimum_rate'', get_or (cells salary_preferences) ''Minimum Rate'' (JInt 0)),
            (''currency'', get_or (cells salary_preferences) ''Currency'' (JStr (py ''USD''))),
            (''availability_hours'',
               get_or (cells salary_preferences) ''Availability (hrs/wk)'' (JInt 0))])]"

text \<open>
  \<open>compress_applicant_data\<close>. Its \<open>except\<close> branch prints and raises again, so the result
  is the error or the text with the store after the write.
\<close>

definition compress_applicant_data ::
  "(json \<Rightarrow> pystr) \<Rightarrow> store \<Rightarrow> pystr \<Rightarrow> error + pystr \<times> store" where
  "compress_applicant_data dumps st applicant_id =
     bind_result (get_personal_details st applicant_id) (\<lambda>personal_details.
     bind_result (get_work_experience st applicant_id) (\<lambda>work_experience.
     bind_result (get_salary_preferences st applicant_id) (\<lambda>salary_preferences.
     case (personal_details, salary_preferences) of
       (Some pd, Some sp) \<Rightarrow>
         bind_result (new_CompressedApplication (compressed_data pd work_experience sp))
           (\<lambda>compressed_app.
            let json_string = dumps (app_dict compressed_app);
                (success, st') = update_compressed_json st applicant_id json_string
            in if success then Inr (json_string, st') else Inl UpdateFailed)
     | _ \<Rightarrow> Inl (ValueError MissingRequiredData))))"

text \<open>
  The applicant identifiers that the batch operations go through: the truthy
  \<open>Applicant ID\<close> cells of the Applicants table.
\<close>

definition applicant_ids :: "row list \<Rightarrow> json list" where
  "applicant_ids all_applicants =
     filter truthy (map (\<lambda>r. get_or (cells r) APPLICANT_ID_FIELD JNull) all_applicants)"

text \<open>
  The identifier is put into the filter formula as text; the model follows the batch
  for identifiers that are strings.
\<close>

definition id_text :: "json \<Rightarrow> pystr" where
  "id_text v = (case v of JStr s \<Rightarrow> s | _ \<Rightarrow> [])"

text \<open>
  The loop of \<open>compress_all_applicants\<close>: the \<open>try\<close> around each call records \<open>None\<close> for
  an applicant whose compression raises and goes on.
\<close>

fun compress_each ::
  "(json \<Rightarrow> pystr) \<Rightarrow> store \<Rightarrow> json list \<Rightarrow> (json \<times> pystr option) list \<times> store" where
  "compress_each dumps st [] = ([], st)"
| "compress_each dumps st (applicant_id # ids) =
     (case compress_applicant_data dumps st (id_text applicant_id) of
        Inr (compressed_json, st') \<Rightarrow>
          (let (results, st'') = compress_each dumps st' ids
           in ((applicant_id, Some compressed_json) # results, st''))
      | Inl e \<Rightarrow>
          (let (results, st'') = compress_each dumps st ids
           in ((applicant_id, None) # results, st'')))"

definition compress_all_applicants ::
  "(json \<Rightarrow> pystr) \<Rightarrow> store \<Rightarrow> error + (json \<times> pystr option) list \<times> store" where
  "compress_all_applicants dumps st =
     bind_result (table_all st Applicants) (\<lambda>all_applicants.
     Inr (compress_each dumps st (applicant_ids all_applicants)))"

section \<open>The Decompressor (\<open>json_decompression.py\<close>)\<close>

text \<open>\<open>x or ''\<close> for an optional string.\<close>

definition or_empty :: "pystr option \<Rightarrow> pystr" where
  "or_empty v = (case v of None \<Rightarrow> [] | Some s \<Rightarrow> s)"

definition personal_data :: "PersonalDetails \<Rightarrow> (string \<times> json) list" where
  "personal_data p =
     [(''Full Name'', JStr (full_name p)), (''Email'', JStr (email p)),
      (''Location'', JStr (location p)), (''LinkedIn'', JStr (or_empty (linkedin p)))]"

definition experience_data :: "WorkExperience \<Rightarrow> (string \<times> json) list" where
  "experience_data w =
     [(''Company'', JStr (company w)), (''Title'', JStr (title w)),
      (''Start'', JStr (start_date w)), (''End'', JStr (or_empty (end_date w))),
      (''Technologies'', JStr (or_empty (technologies w)))]"

definition salary_data :: "SalaryPreferences \<Rightarrow> (string \<times> json) list" where
  "salary_data s =
     [(''Preferred Rate'', JFloat (preferred_rate s)),
      (''Minimum Rate'', JFloat (minimum_rate s)),
      (''Currency'', JStr (currency s)),
      (''Availability (hrs/wk)'', JInt (availability_hours s))]"

text \<open>The three upserts; their flags are not looked at.\<close>

definition upsert_all :: "store \<Rightarrow> pystr \<Rightarrow> CompressedApplication \<Rightarrow> store" where
  "upsert_all st applicant_id compressed_app =
     (let st1 = snd (upsert_personal_details st applicant_id
                       (personal_data (personal compressed_app)));
          st2 = snd (upsert_work_experience st1 applicant_id
                       (map experience_data (experience compressed_app)));
          st3 = snd (upsert_salary_preferences st2 applicant_id
                       (salary_data (salary compressed_app)))
      in st3)"

text \<open>The body of the \<open>try\<close> of \<open>decompress_applicant_data\<close>, and the function with its \<open>except\<close>.\<close>

definition decompress_try ::
  "(pystr \<Rightarrow> json option) \<Rightarrow> store \<Rightarrow> pystr \<Rightarrow> error + store" where
  "decompress_try loads st applicant_id =
     bind_result (stored_document loads st applicant_id) (\<lambda>compressed_app.
     Inr (upsert_all st applicant_id compressed_app))"

definition decompress_applicant_data ::
  "(pystr \<Rightarrow> json option) \<Rightarrow> store \<Rightarrow> pystr \<Rightarrow> bool \<times> store" where
  "decompress_applicant_data loads st applicant_id =
     (case decompress_try loads st applicant_id of
        Inr st' \<Rightarrow> (True, st')
      | Inl e \<Rightarrow> (False, st))"

section \<open>Dates\<close>

text \<open>
  The part of \<open>datetime\<close> that the evaluator uses. A date is its proleptic Gregorian
  ordinal, as \<open>date.toordinal\<close> gives it, so that \<open>(end - start).days\<close> is a difference
  of two integers.
\<close>

definition is_leap :: "int \<Rightarrow> bool" where
  "is_leap y \<longleftrightarrow> y mod 4 = 0 \<and> (y mod 100 \<noteq> 0 \<or> y mod 400 = 0)"

definition days_in_month :: "int \<Rightarrow> int \<Rightarrow> int" where
  "days_in_month y m =
     (if m = 2 then (if is_leap y then 29 else 28)
      else if m = 4 \<or> m = 6 \<or> m = 9 \<or> m = 11 then 30 else 31)"

definition days_before_year :: "int \<Rightarrow> int" where
  "days_before_year y = (y - 1) * 365 + (y - 1) div 4 - (y - 1) div 100 + (y - 1) div 400"

definition days_before_month :: "int \<Rightarrow> int \<Rightarrow> int" where
  "days_before_month y m = sum_list (map (\<lambda>k. days_in_month y (int k)) [1..<nat m])"

definition toordinal :: "int \<Rightarrow> int \<Rightarrow> int \<Rightarrow> int" where
  "toordinal y m d = days_before_year y + days_before_month y m + d"

definition digit_value :: "nat \<Rightarrow> int" where
  "digit_value c = int c - 48"

definition in_range :: "nat \<Rightarrow> nat \<Rightarrow> nat \<Rightarrow> bool" where
  "in_range lo hi c \<longleftrightarrow> lo \<le> c \<and> c \<le> hi"

text \<open>
  \<open>datetime.strptime(s, '%Y-%m-%d').date()\<close>. The directives stand for the patterns
  \<open>\d\d\d\d\<close>, \<open>1[0-2]|0[1-9]|[1-9]\<close> and \<open>3[01]|[12]\d|0[1-9]|[1-9]| [1-9]\<close>, tried in this
  order; text left over after the day, a year 0 and a day that the month does not have
  raise ValueError, here \<open>None\<close>. Only the ASCII digits are recognised.
\<close>

definition match_year :: "pystr \<Rightarrow> (int \<times> pystr) option" where
  "match_year s =
     (case s of
        a # b # c # d # rest \<Rightarrow>
          if isdigit a \<and> isdigit b \<and> isdigit c \<and> isdigit d
          then Some (1000 * digit_value a + 100 * digit_value b + 10 * digit_value c
                     + digit_value d, rest)
          else None
      | _ \<Rightarrow> None)"

definition match_dash :: "pystr \<Rightarrow> pystr option" where
  "match_dash s = (case s of c # rest \<Rightarrow> if c = 45 then Some rest else None | [] \<Rightarrow> None)"

definition match_month :: "pystr \<Rightarrow> (int \<times> pystr) option" where
  "match_month s =
     (case s of
        [] \<Rightarrow> None
      | [a] \<Rightarrow> if in_range 49 57 a then Some (digit_value a, []) else None
      | a # b # rest \<Rightarrow>
          if a = 49 \<and> in_range 48 50 b then Some (10 + digit_value b, rest)
          else if a = 48 \<and> in_range 49 57 b then Some (digit_value b, rest)
          else if in_range 49 57 a then Some (digit_value a, b # rest)
          else None)"

definition match_day :: "pystr \<Rightarrow> (int \<times> pystr) option" where
  "match_day s =
     (case s of
        [] \<Rightarrow> None
      | [a] \<Rightarrow> if in_range 49 57 a then Some (digit_value a, []) else None
      | a # b # rest \<Rightarrow>
          if a = 51 \<and> in_range 48 49 b then Some (30 + digit_value b, rest)
          else if in_range 49 50 a \<and> isdigit b then Some (10 * digit_value a + digit_value b, rest)
          else if a = 48 \<and> in_range 49 57 b then Some (digit_value b, rest)
          else if in_range 49 57 a then Some (digit_value a, b # rest)
          else if a = 32 \<and> in_range 49 57 b then Some (digit_value b, rest)
          else None)"

definition strptime :: "pystr \<Rightarrow> int option" where
  "strptime s =
     (case match_year s of
        None \<Rightarrow> None
      | Some (y, s1) \<Rightarrow>
     (case match_dash s1 of
        None \<Rightarrow> None
      | Some s2 \<Rightarrow>
     (case match_month s2 of
        None \<Rightarrow> None
      | Some (m, s3) \<Rightarrow>
     (case match_dash s3 of
        None \<Rightarrow> None
      | Some s4 \<Rightarrow>
     (case match_day s4 of
        None \<Rightarrow> None
      | Some (d, s5) \<Rightarrow>
          if s5 = [] \<and> 1 \<le> y \<and> d \<le> days_in_month y m then Some (toordinal y m d)
          else None)))))"

section \<open>The Shortlist Evaluator (\<open>shortlist_automation.py\<close>, \<open>config.py\<close>)\<close>

definition TIER_1_COMPANIES :: "pystr list" where
  "TIER_1_COMPANIES =
     [py ''Google'', py ''Meta'', py ''OpenAI'', py ''Microsoft'', py ''Apple'', py ''Amazon'',
      py ''Netflix'']"

definition ELIGIBLE_LOCATIONS :: "pystr list" where
  "ELIGIBLE_LOCATIONS = [py ''US'', py ''Canada'', py ''UK'', py ''Germany'', py ''India'']"

definition MAX_HOURLY_RATE :: rat where
  "MAX_HOURLY_RATE = 100"

definition MIN_AVAILABILITY_HOURS :: int where
  "MIN_AVAILABILITY_HOURS = 20"

definition MIN_EXPERIENCE_YEARS :: rat where
  "MIN_EXPERIENCE_YEARS = 4"

text \<open>
  \<open>calculate_experience_years\<close> is annotated to take dictionaries and calls \<open>exp.get\<close> on
  each entry; \<open>evaluate_applicant\<close> passes it \<open>compressed_app.experience\<close>, a list of
  \<open>WorkExperience\<close> models. A pydantic model has no attribute \<open>get\<close>, so the call raises
  AttributeError on a model. Both kinds of object are in the model.
\<close>

datatype pyobj = DictObj "(string \<times> json) list" | ModelObj WorkExperience

definition obj_get :: "pyobj \<Rightarrow> string \<Rightarrow> json \<Rightarrow> error + json" where
  "obj_get obj key dflt =
     (case obj of
        DictObj kvs \<Rightarrow> Inr (get_or (map_of kvs) key dflt)
      | ModelObj w \<Rightarrow> Inl AttributeError)"

text \<open>\<open>v.lower()\<close> on a value: only a string has the method.\<close>

definition value_lower :: "json \<Rightarrow> error + pystr" where
  "value_lower v = (case v of JStr s \<Rightarrow> Inr (lower s) | _ \<Rightarrow> Inl AttributeError)"

text \<open>\<open>datetime.strptime(v, ...)\<close> on a value: a TypeError when it is not a string.\<close>

definition value_strptime :: "json \<Rightarrow> error + int" where
  "value_strptime v =
     (case v of
        JStr s \<Rightarrow> (case strptime s of None \<Rightarrow> Inl (ValueError DateFormat) | Some d \<Rightarrow> Inr d)
      | _ \<Rightarrow> Inl TypeError)"

text \<open>
  The body of the inner \<open>try\<close>: the duration of one entry in years. \<open>today\<close> is the ordinal
  of \<open>date.today()\<close>.
\<close>

definition duration_years :: "int \<Rightarrow> json \<Rightarrow> json \<Rightarrow> error + rat" where
  "duration_years today start_text end_text =
     bind_result (value_strptime start_text) (\<lambda>start.
     bind_result
       (if truthy end_text
        then bind_result (value_lower end_text) (\<lambda>l.
               if l \<noteq> py ''present'' then value_strptime end_text else Inr today)
        else Inr today) (\<lambda>end.
     Inr (of_int (end - start) / (1461 / 4))))"

definition is_value_or_type_error :: "error \<Rightarrow> bool" where
  "is_value_or_type_error e = (case e of ValueError r \<Rightarrow> True | TypeError \<Rightarrow> True | _ \<Rightarrow> False)"

text \<open>One iteration of the loop, on the pair \<open>(total_years, tier_1_experience)\<close>.\<close>

definition experience_step :: "int \<Rightarrow> rat \<times> bool \<Rightarrow> pyobj \<Rightarrow> error + rat \<times> bool" where
  "experience_step today acc entry =
     bind_result (obj_get entry ''company'' (JStr [])) (\<lambda>c.
     bind_result (value_lower c) (\<lambda>company_name.
     bind_result (obj_get entry ''start'' (JStr [])) (\<lambda>start_text.
     bind_result (obj_get entry ''end'' (JStr [])) (\<lambda>end_text.
     let tier_1 = (snd acc \<or> list_ex (\<lambda>tier_company. contains company_name (lower tier_company))
                                TIER_1_COMPANIES)
     in case duration_years today start_text end_text of
          Inr duration \<Rightarrow> Inr (fst acc + duration, tier_1)
        | Inl e \<Rightarrow> if is_value_or_type_error e then Inr (fst acc, tier_1) else Inl e))))"

fun experience_loop :: "int \<Rightarrow> rat \<times> bool \<Rightarrow> pyobj list \<Rightarrow> error + rat \<times> bool" where
  "experience_loop today acc [] = Inr acc"
| "experience_loop today acc (entry # entries) =
     bind_result (experience_step today acc entry) (\<lambda>acc'. experience_loop today acc' entries)"

definition calculate_experience_years :: "int \<Rightarrow> pyobj list \<Rightarrow> error + rat \<times> bool" where
  "calculate_experience_years today experience_objs = experience_loop today (0, False) experience_objs"

text \<open>
  \<open>ShortlistCriteria\<close>. The rationale is kept as the list of its parts with the values
  that the program formats into them; the formatting of numbers as text is left out.
\<close>

datatype reason_part =
    TierOneExperience
  | HasYears rat
  | InsufficientExperience rat
  | RateAndAvailability rat int
  | RateTooHighOrUnavailable rat int
  | LocatedIn pystr
  | LocationNotEligible pystr
  | ErrorDuringEvaluation error

record ShortlistCriteria =
  experience_qualified :: bool
  compensation_qualified :: bool
  location_qualified :: bool
  total_years_experience :: rat
  tier_1_experience :: bool
  score_reason :: "reason_part list"

definition conversion_rates :: "pystr \<rightharpoonup> rat" where
  "conversion_rates =
     map_of [(py ''EUR'', 11 / 10), (py ''GBP'', 13 / 10), (py ''CAD'', 3 / 4),
             (py ''INR'', 12 / 1000)]"

definition usd_rate_of :: "SalaryPreferences \<Rightarrow> rat" where
  "usd_rate_of s =
     (let cur = upper (currency s) in
      if cur \<noteq> py ''USD''
      then preferred_rate s * (case conversion_rates cur of None \<Rightarrow> 1 | Some r \<Rightarrow> r)
      else preferred_rate s)"

text \<open>The part of \<open>evaluate_applicant\<close> after the validation of the document.\<close>

definition evaluate_document :: "int \<Rightarrow> CompressedApplication \<Rightarrow> error + ShortlistCriteria" where
  "evaluate_document today compressed_app =
     bind_result (calculate_experience_years today (map ModelObj (experience compressed_app)))
       (\<lambda>(total_years, tier_1).
     let experience_q = (total_years \<ge> MIN_EXPERIENCE_YEARS \<or> tier_1);
         availability = availability_hours (salary compressed_app);
         usd_rate = usd_rate_of (salary compressed_app);
         compensation_q = (usd_rate \<le> MAX_HOURLY_RATE \<and> availability \<ge> MIN_AVAILABILITY_HOURS);
         loc = upper (location (personal compressed_app));
         location_q = list_ex (\<lambda>eligible_loc. contains loc (upper eligible_loc))
                        ELIGIBLE_LOCATIONS
     in Inr \<lparr>experience_qualified = experience_q,
             compensation_qualified = compensation_q,
             location_qualified = location_q,
             total_years_experience = total_years,
             tier_1_experience = tier_1,
             score_reason =
               [if experience_q
                then (if tier_1 then TierOneExperience else HasYears total_years)
                else InsufficientExperience total_years,
                if compensation_q then RateAndAvailability usd_rate availability
                else RateTooHighOrUnavailable usd_rate availability,
                if location_q then LocatedIn loc else LocationNotEligible loc]\<rparr>)"

definition error_criteria :: "error \<Rightarrow> ShortlistCriteria" where
  "error_criteria e =
     \<lparr>experience_qualified = False, compensation_qualified = False,
      location_qualified = False, total_years_experience = 0, tier_1_experience = False,
      score_reason = [ErrorDuringEvaluation e]\<rparr>"

definition evaluate_try ::
  "int \<Rightarrow> (pystr \<Rightarrow> json option) \<Rightarrow> store \<Rightarrow> pystr \<Rightarrow> error + ShortlistCriteria" where
  "evaluate_try today loads st applicant_id =
     bind_result (stored_document loads st applicant_id) (evaluate_document today)"

definition evaluate_applicant ::
  "int \<Rightarrow> (pystr \<Rightarrow> json option) \<Rightarrow> store \<Rightarrow> pystr \<Rightarrow> ShortlistCriteria" where
  "evaluate_applicant today loads st applicant_id =
     (case evaluate_try today loads st applicant_id of
        Inr criteria \<Rightarrow> criteria
      | Inl e \<Rightarrow> error_criteria e)"

section \<open>The LLM Evaluator: prompt and retry (\<open>llm_evaluation.py\<close>)\<close>

definition join_lines :: "pystr list \<Rightarrow> pystr" where
  "join_lines ls = (case ls of [] \<Rightarrow> [] | l # rest \<Rightarrow> foldl (\<lambda>acc x. acc @ [newline] @ x) l rest)"

definition create_evaluation_prompt :: "pystr \<Rightarrow> pystr" where
  "create_evaluation_prompt applicant_json =
     join_lines
       [py ''You are a recruiting analyst. Given this JSON applicant profile, do four things:'',
        py ''1. Provide a concise 75-word summary.'',
        py ''2. Rate overall candidate quality from 1-10 (higher is better).'',
        py ''3. List any data gaps or inconsistencies you notice.'',
        py ''4. Suggest up to three follow-up questions to clarify gaps.'',
        [],
        py ''Applicant JSON:'',
        applicant_json,
        [],
        py ''Return exactly:'',
        py ''Summary: <text>'',
        py ''Score: <integer>'',
        py ''Issues: <comma-separated list or '' @ [39] @ py ''None'' @ [39] @ py ''>'',
        py ''Follow-Ups: <bullet list>'']"

text \<open>
  The remote call is a parameter: \<open>call attempt prompt\<close> is the content of the reply to
  the call made in the given attempt, or \<open>None\<close> when that call (or reading its reply)
  raises. The loop \<open>for attempt in range(max_retries)\<close> runs over the list of attempts
  and records every \<open>time.sleep\<close> in the list \<open>sleeps\<close>; leaving the loop without a
  \<open>return\<close> gives \<open>None\<close>.
\<close>

fun retry_loop ::
  "(nat \<Rightarrow> pystr \<Rightarrow> pystr option) \<Rightarrow> pystr \<Rightarrow> int \<Rightarrow> nat list \<Rightarrow> nat list
     \<Rightarrow> LLMEvaluation option \<times> nat list" where
  "retry_loop call prompt max_retries [] sleeps = (None, sleeps)"
| "retry_loop call prompt max_retries (attempt # attempts) sleeps =
     (case call attempt prompt of
        Some content \<Rightarrow> (Some (parse_llm_response (strip content)), sleeps)
      | None \<Rightarrow>
          if int attempt < max_retries - 1
          then retry_loop call prompt max_retries attempts (sleeps @ [2 ^ attempt])
          else (None, sleeps))"

definition evaluate_applicant_with_retry ::
  "(nat \<Rightarrow> pystr \<Rightarrow> pystr option) \<Rightarrow> (json \<Rightarrow> pystr) \<Rightarrow> store \<Rightarrow> pystr \<Rightarrow> int
     \<Rightarrow> LLMEvaluation option \<times> nat list" where
  "evaluate_applicant_with_retry call dumps st applicant_id max_retries =
     (case get_applicant_by_id st applicant_id of
        Inl e \<Rightarrow> (None, [])
      | Inr None \<Rightarrow> (None, [])
      | Inr (Some applicant_record) \<Rightarrow>
          (case cells applicant_record COMPRESSED_JSON_FIELD of
             None \<Rightarrow> (None, [])
           | Some compressed_json \<Rightarrow>
               if \<not> truthy compressed_json then (None, [])
               else
                 (let text = (case compressed_json of JStr s \<Rightarrow> s | v \<Rightarrow> dumps v);
                      prompt = create_evaluation_prompt text
                  in retry_loop call prompt max_retries [0..<nat max_retries] [])))"

text \<open>
  \<open>update_applicant_evaluation\<close> calls the function above with its default of three
  attempts and writes the result to the applicant.
\<close>

definition update_applicant_evaluation ::
  "(nat \<Rightarrow> pystr \<Rightarrow> pystr option) \<Rightarrow> (json \<Rightarrow> pystr) \<Rightarrow> store \<Rightarrow> pystr \<Rightarrow> bool \<times> store" where
  "update_applicant_evaluation call dumps st applicant_id =
     (case fst (evaluate_applicant_with_retry call dumps st applicant_id 3) of
        Some evaluation \<Rightarrow>
          update_llm_evaluation st applicant_id (summary evaluation) (score evaluation)
            (join_lines (follow_ups evaluation))
      | None \<Rightarrow> (False, st))"

section \<open>Example data\<close>

text \<open>
  A reachable store whose only row is the applicant \<open>A1\<close> with the given content of the
  document field, and the reader that parses exactly one text to one value.
\<close>

definition store_with_document :: "json \<Rightarrow> store" where
  "store_with_document doc =
     \<lparr>reachable = True,
      tables = (\<lambda>t. [])(Applicants :=
        [\<lparr>row_id = 0,
          cells = [APPLICANT_ID_FIELD \<mapsto> JStr (py ''A1''), COMPRESSED_JSON_FIELD \<mapsto> doc]\<rparr>]),
      next_id = 1\<rparr>"

definition loads_only :: "pystr \<Rightarrow> json \<Rightarrow> pystr \<Rightarrow> json option" where
  "loads_only text data s = (if s = text then Some data else None)"

text \<open>
  A document with one experience entry at a tier-1 employer lasting five years, a
  preferred rate of 90 EUR with 20 hours a week, and the location Australia; and the
  text that stands for it in the document field.
\<close>

definition example_document :: CompressedApplication where
  "example_document =
     \<lparr>personal = \<lparr>full_name = py ''Jane Doe'', email = py ''jane@example.com'',
                  location = py ''Australia'', linkedin = None\<rparr>,
      experience = [\<lparr>company = py ''Google Inc'', title = py ''Engineer'',
                     start_date = py ''2015-01-01'', end_date = Some (py ''2020-01-01''),
                     technologies = None\<rparr>],
      salary = \<lparr>preferred_rate = 90, minimum_rate = 80, currency = py ''EUR'',
                availability_hours = 20\<rparr>\<rparr>"

definition example_text :: pystr where
  "example_text = py ''{...}''"

definition example_today :: int where
  "example_today = toordinal 2026 1 1"

section \<open>The invariant of the Canonical Document\<close>

text \<open>
  The invariant in the specification's words: the three personal strings are not empty,
  the rates and the hours are not negative.
\<close>

definition spec_invariant :: "CompressedApplication \<Rightarrow> bool" where
  "spec_invariant app \<longleftrightarrow>
     full_name (personal app) \<noteq> [] \<and> email (personal app) \<noteq> [] \<and>
     location (personal app) \<noteq> [] \<and>
     0 \<le> preferred_rate (salary app) \<and> 0 \<le> minimum_rate (salary app) \<and>
     0 \<le> availability_hours (salary app)"

text \<open>
  The shape that the declarations of \<open>models.py\<close> ask for: the document is a dictionary,
  its three parts are there, \<open>personal\<close> and \<open>salary\<close> are dictionaries and \<open>experience\<close>
  is a list of dictionaries, and every field declared with \<open>...\<close> is there and not null.
\<close>

definition present :: "(string \<rightharpoonup> json) \<Rightarrow> string \<Rightarrow> bool" where
  "present d key = (case d key of None \<Rightarrow> False | Some JNull \<Rightarrow> False | Some v \<Rightarrow> True)"

definition personal_shape :: "json \<Rightarrow> bool" where
  "personal_shape v =
     (case v of
        JDict kvs \<Rightarrow> present (map_of kvs) ''full_name'' \<and> present (map_of kvs) ''email''
                     \<and> present (map_of kvs) ''location''
      | _ \<Rightarrow> False)"

definition entry_shape :: "json \<Rightarrow> bool" where
  "entry_shape v =
     (case v of
        JDict kvs \<Rightarrow> present (map_of kvs) ''company'' \<and> present (map_of kvs) ''title''
                     \<and> present (map_of kvs) ''start_date''
      | _ \<Rightarrow> False)"

definition salary_shape :: "json \<Rightarrow> bool" where
  "salary_shape v =
     (case v of
        JDict kvs \<Rightarrow> present (map_of kvs) ''preferred_rate'' \<and> present (map_of kvs) ''minimum_rate''
                     \<and> present (map_of kvs) ''currency''
                     \<and> present (map_of kvs) ''availability_hours''
      | _ \<Rightarrow> False)"

definition experience_shape :: "json \<Rightarrow> bool" where
  "experience_shape v = (case v of JList es \<Rightarrow> list_all entry_shape es | _ \<Rightarrow> False)"

definition part_shape :: "(string \<rightharpoonup> json) \<Rightarrow> string \<Rightarrow> (json \<Rightarrow> bool) \<Rightarrow> bool" where
  "part_shape d key shape = (case d key of None \<Rightarrow> False | Some v \<Rightarrow> shape v)"

definition required_shape :: "json \<Rightarrow> bool" where
  "required_shape data =
     (case data of
        JDict kvs \<Rightarrow> part_shape (map_of kvs) ''personal'' personal_shape
                     \<and> part_shape (map_of kvs) ''experience'' experience_shape
                     \<and> part_shape (map_of kvs) ''salary'' salary_shape
      | _ \<Rightarrow> False)"

text \<open>
  What the validation of a document checks, said of the document and of the model it
  returns: a required cell is there and its validator turns it into the field of the
  model; an optional cell is missing or null and the field is \<open>None\<close>, or its validator
  turns it into the field.
\<close>

definition is_dict :: "json \<Rightarrow> bool" where
  "is_dict v = (case v of JDict kvs \<Rightarrow> True | _ \<Rightarrow> False)"

definition passes :: "(json \<Rightarrow> error + 'a) \<Rightarrow> json option \<Rightarrow> 'a \<Rightarrow> bool" where
  "passes validator cell x = (case cell of None \<Rightarrow> False | Some v \<Rightarrow> validator v = Inr x)"

definition optional_passes :: "(json \<Rightarrow> error + 'a) \<Rightarrow> json option \<Rightarrow> 'a option \<Rightarrow> bool" where
  "optional_passes validator cell x =
     (case cell of
        None \<Rightarrow> x = None
      | Some JNull \<Rightarrow> x = None
      | Some v \<Rightarrow> (case x of None \<Rightarrow> False | Some y \<Rightarrow> validator v = Inr y))"

definition personal_typed :: "validators \<Rightarrow> json \<Rightarrow> PersonalDetails \<Rightarrow> bool" where
  "personal_typed V v p =
     (case v of
        JDict kvs \<Rightarrow>
          passes (str_validator V) (map_of kvs ''full_name'') (full_name p) \<and>
          passes (str_validator V) (map_of kvs ''email'') (email p) \<and>
          passes (str_validator V) (map_of kvs ''location'') (location p) \<and>
          optional_passes (str_validator V) (map_of kvs ''linkedin'') (linkedin p)
      | _ \<Rightarrow> False)"

definition entry_typed :: "validators \<Rightarrow> json \<Rightarrow> WorkExperience \<Rightarrow> bool" where
  "entry_typed V v w =
     (case v of
        JDict kvs \<Rightarrow>
          passes (str_validator V) (map_of kvs ''company'') (company w) \<and>
          passes (str_validator V) (map_of kvs ''title'') (title w) \<and>
          passes (str_validator V) (map_of kvs ''start_date'') (start_date w) \<and>
          optional_passes (str_validator V) (map_of kvs ''end_date'') (end_date w) \<and>
          optional_passes (str_validator V) (map_of kvs ''technologies'') (technologies w)
      | _ \<Rightarrow> False)"

definition salary_typed :: "validators \<Rightarrow> json \<Rightarrow> SalaryPreferences \<Rightarrow> bool" where
  "salary_typed V v s =
     (case v of
        JDict kvs \<Rightarrow>
          passes (float_validator V) (map_of kvs ''preferred_rate'') (preferred_rate s) \<and>
          passes (float_validator V) (map_of kvs ''minimum_rate'') (minimum_rate s) \<and>
          passes (str_validator V) (map_of kvs ''currency'') (currency s) \<and>
          passes (int_validator V) (map_of kvs ''availability_hours'') (availability_hours s)
      | _ \<Rightarrow> False)"

definition experience_typed :: "validators \<Rightarrow> json \<Rightarrow> WorkExperience list \<Rightarrow> bool" where
  "experience_typed V v ws = (case v of JList es \<Rightarrow> list_all2 (entry_typed V) es ws | _ \<Rightarrow> False)"

definition document_typed :: "validators \<Rightarrow> json \<Rightarrow> CompressedApplication \<Rightarrow> bool" where
  "document_typed V data app =
     (case data of
        JDict kvs \<Rightarrow>
          part_shape (map_of kvs) ''personal'' (\<lambda>v. personal_typed V v (personal app)) \<and>
          part_shape (map_of kvs) ''experience''
            (\<lambda>v. experience_typed V v (experience app)) \<and>
          part_shape (map_of kvs) ''salary'' (\<lambda>v. salary_typed V v (salary app))
      | _ \<Rightarrow> False)"

text \<open>A document whose strings are empty and whose numbers are negative.\<close>

definition blank_document :: CompressedApplication where
  "blank_document =
     \<lparr>personal = \<lparr>full_name = [], email = [], location = [], linkedin = None\<rparr>,
      experience = [],
      salary = \<lparr>preferred_rate = - 5, minimum_rate = - 10, currency = [],
                availability_hours = - 1\<rparr>\<rparr>"

section \<open>The round trip through the tables\<close>

text \<open>
  What the Decompressor writes for an absent optional field is the empty string, and
  that is what the Compressor reads back: the document with its absent optional fields
  filled in.
\<close>

definition fill_entry :: "WorkExperience \<Rightarrow> WorkExperience" where
  "fill_entry w =
     w\<lparr>end_date := Some (or_empty (end_date w)),
       technologies := Some (or_empty (technologies w))\<rparr>"

definition fill_optional :: "CompressedApplication \<Rightarrow> CompressedApplication" where
  "fill_optional app =
     app\<lparr>personal := (personal app)\<lparr>linkedin := Some (or_empty (linkedin (personal app)))\<rparr>,
         experience := map fill_entry (experience app)\<rparr>"

text \<open>The text returned by the Compressor, or the error it raises.\<close>

definition returned_text :: "error + pystr \<times> store \<Rightarrow> error + pystr" where
  "returned_text result = (case result of Inl e \<Rightarrow> Inl e | Inr (text, st) \<Rightarrow> Inr text)"

text \<open>The writer that gives one text to one value and another text to every other value.\<close>

definition dumps_only :: "pystr \<Rightarrow> json \<Rightarrow> pystr \<Rightarrow> json \<Rightarrow> pystr" where
  "dumps_only text data other v = (if v = data then text else other)"

text \<open>The example document with every optional field given.\<close>

definition complete_document :: CompressedApplication where
  "complete_document =
     \<lparr>personal = \<lparr>full_name = py ''Jane Doe'', email = py ''jane@example.com'',
                  location = py ''Australia'', linkedin = Some (py ''linkedin.com/in/jane'')\<rparr>,
      experience = [\<lparr>company = py ''Google Inc'', title = py ''Engineer'',
                     start_date = py ''2015-01-01'', end_date = Some (py ''2020-01-01''),
                     technologies = Some (py ''Python'')\<rparr>],
      salary = \<lparr>preferred_rate = 90, minimum_rate = 80, currency = py ''EUR'',
                availability_hours = 20\<rparr>\<rparr>"

definition other_text :: pystr where
  "other_text = py ''{other}''"

section \<open>The operations with their effects\<close>

text \<open>
  The operations once more, now with what they do besides computing a result: every
  call to the store may fail on its own, every \<open>print\<close> is recorded, and an exception
  that is not caught is the result \<open>Inl\<close>. The world holds the store, which calls
  fail (by their number in the order of the calls), the number of calls made so far,
  the lines printed and the seconds slept.
\<close>

datatype log_line =
    ErrorUpdatingCompressedJSON error
  | ErrorUpsertingPersonalDetails error
  | ErrorUpsertingWorkExperience error
  | ErrorUpsertingSalaryPreferences error
  | SuccessfullyCompressed pystr
  | ErrorCompressing pystr error
  | FailedToCompress json error
  | SuccessfullyDecompressed pystr
  | ErrorDecompressing pystr error
  | ErrorEvaluating pystr error
  | ApplicantNotFoundLine pystr
  | NoCompressedJSONLine pystr
  | SuccessfullyEvaluated pystr nat
  | AttemptFailed nat pystr
  | RetryingIn nat
  | AllAttemptsFailed pystr
  | ErrorEvaluatingWithLLM pystr error

record world =
  db :: store
  faults :: "nat \<Rightarrow> bool"
  clock :: nat
  printed :: "log_line list"
  slept :: "nat list"

type_synonym 'a action = "world \<Rightarrow> (error + 'a) \<times> world"

definition return :: "'a \<Rightarrow> 'a action" where
  "return x w = (Inr x, w)"

definition raise :: "error \<Rightarrow> 'a action" where
  "raise e w = (Inl e, w)"

definition then_do :: "'a action \<Rightarrow> ('a \<Rightarrow> 'b action) \<Rightarrow> 'b action" where
  "then_do m f w = (case m w of (Inl e, w') \<Rightarrow> (Inl e, w') | (Inr x, w') \<Rightarrow> f x w')"

text \<open>\<open>try: m except Exception as e: h e\<close>\<close>

definition try_except :: "'a action \<Rightarrow> (error \<Rightarrow> 'a action) \<Rightarrow> 'a action" where
  "try_except m h w = (case m w of (Inl e, w') \<Rightarrow> h e w' | (Inr x, w') \<Rightarrow> (Inr x, w'))"

definition print :: "log_line \<Rightarrow> unit action" where
  "print l w = (Inr (), w\<lparr>printed := printed w @ [l]\<rparr>)"


text \<open>A computation without effects that may raise.\<close>

definition compute :: "error + 'a \<Rightarrow> 'a action" where
  "compute r w = (r, w)"

text \<open>
  A call to the store: it counts as one call, raises when the world makes this call
  fail, and otherwise does what the table operation does on the store.
\<close>

definition tick :: "world \<Rightarrow> world" where
  "tick w = w\<lparr>clock := Suc (clock w)\<rparr>"

definition remote_read :: "(store \<Rightarrow> error + 'a) \<Rightarrow> 'a action" where
  "remote_read f w =
     (if faults w (clock w) then (Inl TransportError, tick w) else (f (db w), tick w))"

definition remote_write :: "(store \<Rightarrow> error + store) \<Rightarrow> unit action" where
  "remote_write f w =
     (if faults w (clock w) then (Inl TransportError, tick w)
      else (case f (db w) of
              Inl e \<Rightarrow> (Inl e, tick w)
            | Inr st' \<Rightarrow> (Inr (), (tick w)\<lparr>db := st'\<rparr>)))"

text \<open>The action returns: it does not raise to its caller.\<close>

definition returns :: "'a action \<Rightarrow> world \<Rightarrow> bool" where
  "returns m w = (case fst (m w) of Inl e \<Rightarrow> False | Inr x \<Rightarrow> True)"

subsection \<open>The client\<close>

definition first_matching :: "table \<Rightarrow> pystr \<Rightarrow> row option action" where
  "first_matching t applicant_id =
     then_do (remote_read (\<lambda>st. table_all_by_id st t applicant_id)) (\<lambda>records.
     return (first_or_none records))"

definition get_applicant_by_id_io :: "pystr \<Rightarrow> row option action" where
  "get_applicant_by_id_io = first_matching Applicants"

definition get_personal_details_io :: "pystr \<Rightarrow> row option action" where
  "get_personal_details_io = first_matching PersonalDetailsTable"

definition get_salary_preferences_io :: "pystr \<Rightarrow> row option action" where
  "get_salary_preferences_io = first_matching SalaryPreferencesTable"

definition get_work_experience_io :: "pystr \<Rightarrow> row list action" where
  "get_work_experience_io applicant_id =
     remote_read (\<lambda>st. table_all_by_id st WorkExperienceTable applicant_id)"

definition update_compressed_json_io :: "pystr \<Rightarrow> pystr \<Rightarrow> bool action" where
  "update_compressed_json_io applicant_id compressed_json =
     try_except
       (then_do (get_applicant_by_id_io applicant_id) (\<lambda>applicant_record.
        case applicant_record of
          Some r \<Rightarrow>
            then_do (remote_write (\<lambda>st. table_update st Applicants (row_id r)
                       [(COMPRESSED_JSON_FIELD, JStr compressed_json)])) (\<lambda>_.
            return True)
        | None \<Rightarrow> return False))
       (\<lambda>e. then_do (print (ErrorUpdatingCompressedJSON e)) (\<lambda>_. return False))"

definition upsert_one_io ::
  "table \<Rightarrow> (error \<Rightarrow> log_line) \<Rightarrow> pystr \<Rightarrow> (string \<times> json) list \<Rightarrow> bool action" where
  "upsert_one_io t line applicant_id data =
     try_except
       (then_do (first_matching t applicant_id) (\<lambda>existing_record.
        then_do
          (case existing_record of
             Some r \<Rightarrow> remote_write (\<lambda>st. table_update st t (row_id r) data)
           | None \<Rightarrow>
               remote_write (\<lambda>st. table_create st t
                 ((APPLICANT_ID_FIELD, JStr applicant_id) # data))) (\<lambda>_.
        return True)))
       (\<lambda>e. then_do (print (line e)) (\<lambda>_. return False))"

definition upsert_personal_details_io :: "pystr \<Rightarrow> (string \<times> json) list \<Rightarrow> bool action" where
  "upsert_personal_details_io = upsert_one_io PersonalDetailsTable ErrorUpsertingPersonalDetails"

definition upsert_salary_preferences_io :: "pystr \<Rightarrow> (string \<times> json) list \<Rightarrow> bool action" where
  "upsert_salary_preferences_io =
     upsert_one_io SalaryPreferencesTable ErrorUpsertingSalaryPreferences"

fun delete_each :: "row list \<Rightarrow> unit action" where
  "delete_each [] w = return () w"
| "delete_each (r # rs) w =
     then_do (remote_write (\<lambda>st. table_delete st WorkExperienceTable (row_id r)))
       (\<lambda>_. delete_each rs) w"

fun create_each :: "pystr \<Rightarrow> (string \<times> json) list list \<Rightarrow> unit action" where
  "create_each applicant_id [] w = return () w"
| "create_each applicant_id (entry # entries) w =
     then_do (remote_write (\<lambda>st. table_create st WorkExperienceTable
                ((APPLICANT_ID_FIELD, JStr applicant_id) # entry)))
       (\<lambda>_. create_each applicant_id entries) w"

definition upsert_work_experience_io ::
  "pystr \<Rightarrow> (string \<times> json) list list \<Rightarrow> bool action" where
  "upsert_work_experience_io applicant_id entries =
     try_except
       (then_do (get_work_experience_io applicant_id) (\<lambda>existing_records.
        then_do (delete_each existing_records) (\<lambda>_.
        then_do (create_each applicant_id entries) (\<lambda>_.
        return True))))
       (\<lambda>e. then_do (print (ErrorUpsertingWorkExperience e)) (\<lambda>_. return False))"

subsection \<open>The four operations\<close>

text \<open>What the Decompressor and the Shortlist Evaluator do with the record they have found.\<close>

definition document_of_record ::
  "(pystr \<Rightarrow> json option) \<Rightarrow> row option \<Rightarrow> error + CompressedApplication" where
  "document_of_record loads applicant_record =
     (case applicant_record of
        None \<Rightarrow> Inl (ValueError ApplicantNotFound)
      | Some r \<Rightarrow>
          (case cells r COMPRESSED_JSON_FIELD of
             None \<Rightarrow> Inl (ValueError NoCompressedJSON)
           | Some compressed_json \<Rightarrow>
               if \<not> truthy compressed_json then Inl (ValueError NoCompressedJSON)
               else bind_result (parse_document loads compressed_json)
                      new_CompressedApplication))"

definition stored_document_io ::
  "(pystr \<Rightarrow> json option) \<Rightarrow> pystr \<Rightarrow> CompressedApplication action" where
  "stored_document_io loads applicant_id =
     then_do (get_applicant_by_id_io applicant_id) (\<lambda>applicant_record.
     compute (document_of_record loads applicant_record))"

definition decompress_applicant_data_io :: "(pystr \<Rightarrow> json option) \<Rightarrow> pystr \<Rightarrow> bool action" where
  "decompress_applicant_data_io loads applicant_id =
     try_except
       (then_do (stored_document_io loads applicant_id) (\<lambda>compressed_app.
        then_do (upsert_personal_details_io applicant_id
                   (personal_data (personal compressed_app))) (\<lambda>_.
        then_do (upsert_work_experience_io applicant_id
                   (map experience_data (experience compressed_app))) (\<lambda>_.
        then_do (upsert_salary_preferences_io applicant_id
                   (salary_data (salary compressed_app))) (\<lambda>_.
        then_do (print (SuccessfullyDecompressed applicant_id)) (\<lambda>_.
        return True))))))
       (\<lambda>e. then_do (print (ErrorDecompressing applicant_id e)) (\<lambda>_. return False))"


text \<open>The body of the \<open>try\<close> of \<open>compress_applicant_data\<close>, and the function, which raises again.\<close>

definition compress_try_io :: "(json \<Rightarrow> pystr) \<Rightarrow> pystr \<Rightarrow> pystr action" where
  "compress_try_io dumps applicant_id =
     then_do (get_personal_details_io applicant_id) (\<lambda>personal_details.
     then_do (get_work_experience_io applicant_id) (\<lambda>work_experience.
     then_do (get_salary_preferences_io applicant_id) (\<lambda>salary_preferences.
     case (personal_details, salary_preferences) of
       (Some pd, Some sp) \<Rightarrow>
         then_do (compute (new_CompressedApplication (compressed_data pd work_experience sp)))
           (\<lambda>compressed_app.
         then_do (update_compressed_json_io applicant_id (dumps (app_dict compressed_app)))
           (\<lambda>success.
         if success
         then then_do (print (SuccessfullyCompressed applicant_id)) (\<lambda>_.
              return (dumps (app_dict compressed_app)))
         else raise UpdateFailed))
     | _ \<Rightarrow> raise (ValueError MissingRequiredData))))"

definition compress_applicant_data_io :: "(json \<Rightarrow> pystr) \<Rightarrow> pystr \<Rightarrow> pystr action" where
  "compress_applicant_data_io dumps applicant_id =
     try_except (compress_try_io dumps applicant_id)
       (\<lambda>e. then_do (print (ErrorCompressing applicant_id e)) (\<lambda>_. raise e))"

fun compress_each_io ::
  "(json \<Rightarrow> pystr) \<Rightarrow> json list \<Rightarrow> (json \<times> pystr option) list action" where
  "compress_each_io dumps [] w = return [] w"
| "compress_each_io dumps (applicant_id # ids) w =
     then_do
       (try_except
          (then_do (compress_applicant_data_io dumps (id_text applicant_id))
             (\<lambda>compressed_json. return (applicant_id, Some compressed_json)))
          (\<lambda>e. then_do (print (FailedToCompress applicant_id e)) (\<lambda>_.
               return (applicant_id, None))))
       (\<lambda>result. then_do (compress_each_io dumps ids) (\<lambda>results.
        return (result # results))) w"

definition compress_all_applicants_io ::
  "(json \<Rightarrow> pystr) \<Rightarrow> (json \<times> pystr option) list action" where
  "compress_all_applicants_io dumps =
     then_do (remote_read (\<lambda>st. table_all st Applicants)) (\<lambda>all_applicants.
     compress_each_io dumps (applicant_ids all_applicants))"






section \<open>Verified properties\<close>

subsection \<open>Evaluation of the string functions on literals\<close>

lemmas string_eval =
  strip_def lstrip_def rstrip_def isspace_def newline_def comma_def bullet_def
  startswith_def lstrip_chars_def lower_def lower_cp_def upper_def upper_cp_def
  py_int_def unsigned_value_def decimal_def decimal_zeros_def MAX_STR_DIGITS_def

lemmas parser_eval =
  parse_llm_response_def parse_lines_def parse_line_def initial_vars_def
  new_LLMEvaluation_def Let_def

lemma startswith_nth: "startswith s p \<Longrightarrow> i < length p \<Longrightarrow> s ! i = p ! i"
  unfolding startswith_def by (metis nth_take)

subsection \<open>The score of a parsed reply\<close>



lemma label_not_score:
  "startswith s (py ''Issues:'') \<Longrightarrow> \<not> startswith s (py ''Score:'')"
  "startswith s (py ''Follow-Ups:'') \<Longrightarrow> \<not> startswith s (py ''Score:'')"
  "startswith s (py ''Summary:'') \<Longrightarrow> \<not> startswith s (py ''Score:'')"
  using startswith_nth [of s "py ''Score:''" 0] startswith_nth [of s "py ''Issues:''" 0]
    startswith_nth [of s "py ''Follow-Ups:''" 0] startswith_nth [of s "py ''Score:''" 1]
    startswith_nth [of s "py ''Summary:''" 1]
  by auto









subsection \<open>The two replies of the specification\<close>

text \<open>
  C6, as stated, fails on its second reply: \<open>garbled text\<close> raises nothing, so the
  fallback evaluation is not returned, and the result has no issue and no follow-up.
\<close>

theorem garbled_reply_counterexample:
  "\<not> (score (parse_llm_response (py ''garbled text'')) = 5 \<and>
      length (issues (parse_llm_response (py ''garbled text''))) = 1 \<and>
      length (follow_ups (parse_llm_response (py ''garbled text''))) = 1)"
  by (simp add: parser_eval string_eval)

text \<open>
  C6, amended: the four-line reply of the specification gives score 8, no issues and
  the one follow-up \<open>Ask about visa status\<close>; the reply \<open>garbled text\<close> gives the
  default-filled evaluation: summary \<open>No summary provided\<close>, score 5, no issues and no
  follow-ups.
\<close>

theorem specification_replies:
  "parse_llm_response
     (py ''Summary: Good candidate'' @ [newline] @ py ''Score: 8'' @ [newline] @
      py ''Issues: None'' @ [newline] @
      py ''Follow-Ups: '' @ [bullet] @ py '' Ask about visa status'')
   = \<lparr>summary = py ''Good candidate'', score = 8, issues = [],
      follow_ups = [py ''Ask about visa status'']\<rparr> \<and>
   parse_llm_response (py ''garbled text'')
   = \<lparr>summary = py ''No summary provided'', score = 5, issues = [], follow_ups = []\<rparr>"
  by (simp add: parser_eval string_eval)

subsection \<open>Follow-ups on several lines\<close>

text \<open>
  C7 at a reply with one follow-up on the line of the label and one on the next line:
  the reply is split into lines before the labels are looked for, so the text after
  \<open>Follow-Ups:\<close> never contains a newline and the second follow-up is lost.
\<close>

theorem follow_ups_next_line_lost:
  "follow_ups (parse_llm_response
     (py ''Follow-Ups: '' @ [bullet] @ py '' First question'' @ [newline, bullet] @
      py '' Second question''))
   = [py ''First question'']"
  by (simp add: parser_eval string_eval)

subsection \<open>Retry and backoff\<close>

lemma retry_loop_all_fail:
  "k \<le> n \<Longrightarrow> (\<forall>a. k \<le> a \<and> a < n \<longrightarrow> call a p = None) \<Longrightarrow>
   retry_loop call p (int n) [k..<n] sl = (None, sl @ map (\<lambda>a. 2 ^ a) [k..<n - 1])"
proof (induction "n - k" arbitrary: k sl)
  case 0
  then show ?case by simp
next
  case (Suc d)
  then have kn: "k < n" by simp
  then have upt: "[k..<n] = k # [Suc k..<n]" by (simp add: upt_conv_Cons)
  have callk: "call k p = None" using Suc.prems kn by simp
  show ?case
  proof (cases "Suc k < n")
    case True
    then have upt2: "[k..<n - Suc 0] = k # [Suc k..<n - Suc 0]" by (simp add: upt_conv_Cons)
    have "retry_loop call p (int n) [Suc k..<n] (sl @ [2 ^ k]) =
          (None, (sl @ [2 ^ k]) @ map (\<lambda>a. 2 ^ a) [Suc k..<n - 1])"
      using Suc.hyps(2) Suc.prems True by (intro Suc.hyps(1)) auto
    with True callk show ?thesis by (simp add: upt upt2)
  next
    case False
    with kn have "n = Suc k" by simp
    with callk show ?thesis by (simp add: upt)
  qed
qed

lemma retry_loop_success:
  "j \<le> k \<Longrightarrow> k < n \<Longrightarrow> (\<forall>a. j \<le> a \<and> a < k \<longrightarrow> call a p = None) \<Longrightarrow> call k p = Some c \<Longrightarrow>
   retry_loop call p (int n) [j..<n] sl
     = (Some (parse_llm_response (strip c)), sl @ map (\<lambda>a. 2 ^ a) [j..<k])"
proof (induction "k - j" arbitrary: j sl)
  case 0
  then have "j = k" by simp
  with 0 show ?case by (simp add: upt_conv_Cons)
next
  case (Suc d)
  then have jk: "j < k" by simp
  with Suc.prems have upt: "[j..<n] = j # [Suc j..<n]" and upt2: "[j..<k] = j # [Suc j..<k]"
    by (simp_all add: upt_conv_Cons)
  have callj: "call j p = None" using Suc.prems jk by simp
  have "retry_loop call p (int n) [Suc j..<n] (sl @ [2 ^ j])
     = (Some (parse_llm_response (strip c)), (sl @ [2 ^ j]) @ map (\<lambda>a. 2 ^ a) [Suc j..<k])"
    using Suc.hyps(2) Suc.prems jk by (intro Suc.hyps(1)) auto
  moreover have "int j < int n - 1" using jk Suc.prems by simp
  ultimately show ?case using callj by (simp add: upt upt2)
qed

lemma get_applicant_example:
  "get_applicant_by_id (store_with_document doc) (py ''A1'')
     = Inr (Some \<lparr>row_id = 0,
          cells = [APPLICANT_ID_FIELD \<mapsto> JStr (py ''A1''), COMPRESSED_JSON_FIELD \<mapsto> doc]\<rparr>)"
  by (simp add: get_applicant_by_id_def store_with_document_def table_all_by_id_def
      bind_result_def matches_def first_or_none_def APPLICANT_ID_FIELD_def
      COMPRESSED_JSON_FIELD_def)

text \<open>
  C8, amended: for an applicant that carries a non-empty document text, when every one
  of the \<open>n\<close> attempts fails the function returns \<open>None\<close> after sleeping \<open>2 ^ attempt\<close>
  seconds after each failed attempt except the last, that is \<open>n - 1\<close> sleeps (1s and 2s
  for the default of three attempts); when attempt \<open>k\<close> is the first to succeed it returns
  the parsed reply after the sleeps of the attempts before \<open>k\<close>. Nothing is raised.
\<close>

theorem retry_backoff:
  assumes "get_applicant_by_id st applicant_id = Inr (Some r)"
    and "cells r COMPRESSED_JSON_FIELD = Some (JStr text)"
    and "text \<noteq> []"
  shows "((\<forall>a<n. call a (create_evaluation_prompt text) = None) \<longrightarrow>
          evaluate_applicant_with_retry call dumps st applicant_id (int n)
            = (None, map (\<lambda>a. 2 ^ a) [0..<n - 1])) \<and>
         (k < n \<and> (\<forall>a<k. call a (create_evaluation_prompt text) = None) \<and>
          call k (create_evaluation_prompt text) = Some c \<longrightarrow>
          evaluate_applicant_with_retry call dumps st applicant_id (int n)
            = (Some (parse_llm_response (strip c)), map (\<lambda>a. 2 ^ a) [0..<k]))"
proof -
  have unfold: "evaluate_applicant_with_retry call dumps st applicant_id (int n)
      = retry_loop call (create_evaluation_prompt text) (int n) [0..<n] []"
    using assms by (simp add: evaluate_applicant_with_retry_def)
  show ?thesis
    using retry_loop_all_fail [of 0 n call "create_evaluation_prompt text" "[]"]
      retry_loop_success [of 0 k n call "create_evaluation_prompt text" c "[]"]
    by (simp add: unfold)
qed

theorem retry_backoff_witness:
  "evaluate_applicant_with_retry (\<lambda>a p. None) (\<lambda>v. []) (store_with_document (JStr (py ''{}'')))
     (py ''A1'') 3 = (None, [1, 2]) \<and>
   evaluate_applicant_with_retry (\<lambda>a p. if a = 2 then Some (py ''Score: 7'') else None) (\<lambda>v. [])
     (store_with_document (JStr (py ''{}''))) (py ''A1'') 3
     = (Some \<lparr>summary = py ''No summary provided'', score = 7, issues = [], follow_ups = []\<rparr>,
        [1, 2])"
proof -
  have a: "cells \<lparr>row_id = 0, cells = [APPLICANT_ID_FIELD \<mapsto> JStr (py ''A1''),
        COMPRESSED_JSON_FIELD \<mapsto> JStr (py ''{}'')]\<rparr> COMPRESSED_JSON_FIELD = Some (JStr (py ''{}''))"
    by simp
  have b: "py ''{}'' \<noteq> []" by simp
  have p: "parse_llm_response (strip (py ''Score: 7''))
     = \<lparr>summary = py ''No summary provided'', score = 7, issues = [], follow_ups = []\<rparr>"
    by (simp add: parser_eval string_eval)
  have u: "[0..<2] = [0, Suc 0]" "[0..<3 - 1] = [0, Suc 0]" by (simp_all add: upt_conv_Cons)
  from retry_backoff [OF get_applicant_example a b, of 3 "\<lambda>a p. None" "\<lambda>v. []" 2 "[]"]
    retry_backoff [OF get_applicant_example a b, of 3
      "\<lambda>a p. if a = 2 then Some (py ''Score: 7'') else None" "\<lambda>v. []" 2 "py ''Score: 7''"]
  show ?thesis by (simp add: u parser_eval string_eval)
qed

text \<open>
  C8, as stated, gives the sleeps of three failing attempts as 1s, 2s and 4s. The guard
  \<open>attempt < max_retries - 1\<close> lets no sleep follow the last attempt: the sleeps are 1s
  and 2s.
\<close>

theorem backoff_counterexample:
  "snd (evaluate_applicant_with_retry (\<lambda>a p. None) (\<lambda>v. [])
          (store_with_document (JStr (py ''{}''))) (py ''A1'') 3) \<noteq> [1, 2, 4]"
proof -
  have "evaluate_applicant_with_retry (\<lambda>a p. None) (\<lambda>v. [])
          (store_with_document (JStr (py ''{}''))) (py ''A1'') 3
        = retry_loop (\<lambda>a p. None) (create_evaluation_prompt (py ''{}'')) 3 [0..<nat 3] []"
    unfolding evaluate_applicant_with_retry_def get_applicant_example by simp
  then show ?thesis by (simp add: upt_conv_Cons)
qed

subsection \<open>What validation checks\<close>

lemma bind_result_Inr:
  "bind_result m f = Inr y \<longleftrightarrow> (\<exists>x. m = Inr x \<and> f x = Inr y)"
  by (cases m) (simp_all add: bind_result_def)

lemma bind_result_Inl:
  "bind_result m f = Inl e \<longleftrightarrow> m = Inl e \<or> (\<exists>x. m = Inr x \<and> f x = Inl e)"
  by (cases m) (simp_all add: bind_result_def)

lemma required_passes: "required d k f = Inr x \<longleftrightarrow> passes f (d k) x"
  by (simp add: required_def passes_def split: option.splits)

lemma optional_passes: "optional d k f = Inr x \<longleftrightarrow> optional_passes f (d k) x"
  by (cases x)
     (auto simp: optional_def optional_passes_def bind_result_Inr
        split: option.splits json.splits)

lemma validate_personal_iff: "validate_personal V v = Inr p \<longleftrightarrow> personal_typed V v p"
  by (cases v; cases p)
     (auto simp: validate_personal_def personal_typed_def bind_result_Inr required_passes
        optional_passes)

lemma validate_entry_iff: "validate_entry V v = Inr w \<longleftrightarrow> entry_typed V v w"
  by (cases v; cases w)
     (auto simp: validate_entry_def entry_typed_def bind_result_Inr required_passes
        optional_passes)

lemma validate_salary_iff: "validate_salary V v = Inr s \<longleftrightarrow> salary_typed V v s"
  by (cases v; cases s)
     (auto simp: validate_salary_def salary_typed_def bind_result_Inr required_passes)

lemma all_results_iff:
  "all_results (map (validate_entry V) es) = Inr ws \<longleftrightarrow> list_all2 (entry_typed V) es ws"
proof (induction es arbitrary: ws)
  case Nil
  show ?case by auto
next
  case (Cons e es)
  show ?case
    by (cases ws) (auto simp: bind_result_Inr Cons.IH validate_entry_iff)
qed

lemma validate_experience_iff:
  "validate_experience V v = Inr ws \<longleftrightarrow> experience_typed V v ws"
  by (cases v) (simp_all add: validate_experience_def experience_typed_def all_results_iff)

lemma required_part:
  "required d k f = Inr x \<longleftrightarrow> part_shape d k (\<lambda>v. f v = Inr x)"
  by (simp add: required_def part_shape_def split: option.splits)

lemma validate_document_iff:
  "validate_document V data = Inr app \<longleftrightarrow> document_typed V data app"
  by (cases data; cases app)
     (auto simp: validate_document_def document_typed_def bind_result_Inr required_part
        validate_personal_iff validate_experience_iff validate_salary_iff)


lemma passes_present:
  "passes f (d k) x \<Longrightarrow> f JNull = Inl e \<Longrightarrow> present d k"
  by (auto simp: passes_def present_def split: option.splits json.splits)

lemma personal_typed_shape:
  "personal_typed V v p \<Longrightarrow> str_validator V JNull = Inl ValidationError \<Longrightarrow> personal_shape v"
  by (cases v) (auto simp: personal_typed_def personal_shape_def intro: passes_present)

lemma entry_typed_shape:
  "entry_typed V v w \<Longrightarrow> str_validator V JNull = Inl ValidationError \<Longrightarrow> entry_shape v"
  by (cases v) (auto simp: entry_typed_def entry_shape_def intro: passes_present)

lemma salary_typed_shape:
  "salary_typed V v s \<Longrightarrow> str_validator V JNull = Inl ValidationError \<Longrightarrow>
   float_validator V JNull = Inl ValidationError \<Longrightarrow>
   int_validator V JNull = Inl ValidationError \<Longrightarrow> salary_shape v"
  by (cases v) (auto simp: salary_typed_def salary_shape_def intro: passes_present)

lemma entries_typed_shape:
  "list_all2 (entry_typed V) es ws \<Longrightarrow> str_validator V JNull = Inl ValidationError \<Longrightarrow>
   list_all entry_shape es"
  by (induction es ws rule: list_all2_induct) (auto intro: entry_typed_shape)

lemma experience_typed_shape:
  "experience_typed V v ws \<Longrightarrow> str_validator V JNull = Inl ValidationError \<Longrightarrow>
   experience_shape v"
  by (cases v) (auto simp: experience_typed_def experience_shape_def intro: entries_typed_shape)

lemma document_typed_shape:
  assumes "document_typed V data app"
    and "str_validator V JNull = Inl ValidationError"
    and "float_validator V JNull = Inl ValidationError"
    and "int_validator V JNull = Inl ValidationError"
  shows "required_shape data"
  using assms
  by (cases data)
     (auto simp: document_typed_def required_shape_def part_shape_def
        intro: personal_typed_shape experience_typed_shape salary_typed_shape
        split: option.splits)

lemma optional_passes_exact:
  "(\<And>s. f (JStr s) = Inr s) \<Longrightarrow> optional_passes f (Some (optional_json x)) x"
  by (cases x) (simp_all add: optional_passes_def optional_json_def)

lemma typed_dicts:
  assumes "\<And>s. str_validator V (JStr s) = Inr s"
    and "\<And>x. float_validator V (JFloat x) = Inr x"
    and "\<And>i. int_validator V (JInt i) = Inr i"
  shows "personal_typed V (personal_dict p) p"
    and "entry_typed V (experience_dict w) w"
    and "salary_typed V (salary_dict s) s"
    and "list_all2 (entry_typed V) (map experience_dict ws) ws"
    and "document_typed V (app_dict app) app"
proof -
  show p: "personal_typed V (personal_dict p) p" for p
    by (simp add: personal_typed_def personal_dict_def passes_def assms(1)
        optional_passes_exact [of "str_validator V", OF assms(1)])
  show w: "entry_typed V (experience_dict w) w" for w
    by (simp add: entry_typed_def experience_dict_def experience_items_def passes_def assms(1)
        optional_passes_exact [of "str_validator V", OF assms(1)])
  show s: "salary_typed V (salary_dict s) s" for s
    by (simp add: salary_typed_def salary_dict_def passes_def assms)
  show ws: "list_all2 (entry_typed V) (map experience_dict ws) ws" for ws
    by (induction ws) (simp_all add: w)
  show "document_typed V (app_dict app) app"
    by (simp add: document_typed_def app_dict_def part_shape_def experience_typed_def p s ws)
qed

lemma required_Inl:
  "required d k f = Inl e \<longleftrightarrow>
     (d k = None \<and> e = ValidationError) \<or> (\<exists>v. d k = Some v \<and> f v = Inl e)"
  by (auto simp: required_def split: option.splits)

lemma optional_Inl: "optional d k f = Inl e \<Longrightarrow> \<exists>v. f v = Inl e"
  by (auto simp: optional_def bind_result_Inl split: option.splits json.splits)

lemma validate_personal_error:
  assumes "validate_personal V v = Inl e"
    and "\<And>x. str_validator V x = Inl e \<Longrightarrow> e = ValidationError"
  shows "e = ValidationError"
  using assms
  by (cases v) (auto simp: validate_personal_def bind_result_Inl required_Inl dest!: optional_Inl)

lemma validate_entry_error:
  assumes "validate_entry V v = Inl e"
    and "\<And>x. str_validator V x = Inl e \<Longrightarrow> e = ValidationError"
  shows "e = ValidationError"
  using assms
  by (cases v) (auto simp: validate_entry_def bind_result_Inl required_Inl dest!: optional_Inl)

lemma validate_salary_error:
  assumes "validate_salary V v = Inl e"
    and "\<And>x. str_validator V x = Inl e \<Longrightarrow> e = ValidationError"
    and "\<And>x. float_validator V x = Inl e \<Longrightarrow> e = ValidationError"
    and "\<And>x. int_validator V x = Inl e \<Longrightarrow> e = ValidationError"
  shows "e = ValidationError"
  using assms
  by (cases v) (auto simp: validate_salary_def bind_result_Inl required_Inl)

lemma all_results_error:
  assumes "all_results (map (validate_entry V) es) = Inl e"
    and "\<And>x. str_validator V x = Inl e \<Longrightarrow> e = ValidationError"
  shows "e = ValidationError"
  using assms(1)
  by (induction es) (auto simp: bind_result_Inl dest: validate_entry_error [OF _ assms(2)])

lemma validate_experience_error:
  assumes "validate_experience V v = Inl e"
    and "\<And>x. str_validator V x = Inl e \<Longrightarrow> e = ValidationError"
  shows "e = ValidationError"
  using assms(1)
  by (cases v) (auto simp: validate_experience_def dest: all_results_error [OF _ assms(2)])

lemma validate_document_error:
  assumes "validate_document V data = Inl e"
    and "\<And>x. str_validator V x = Inl e \<Longrightarrow> e = ValidationError"
    and "\<And>x. float_validator V x = Inl e \<Longrightarrow> e = ValidationError"
    and "\<And>x. int_validator V x = Inl e \<Longrightarrow> e = ValidationError"
  shows "if is_dict data then e = ValidationError else e = TypeError"
proof (cases data)
  case (JDict kvs)
  have "e = ValidationError"
    using assms(1) unfolding JDict validate_document_def
    by (auto simp: bind_result_Inl required_Inl
        dest: validate_personal_error [OF _ assms(2)]
          validate_experience_error [OF _ assms(2)]
          validate_salary_error [OF _ assms(2-4)])
  then show ?thesis by (simp add: JDict is_dict_def)
qed (use assms(1) in \<open>simp_all add: validate_document_def is_dict_def\<close>)

lemma exact_validators_sound:
  "str_validator exact_validators (JStr s) = Inr s"
  "float_validator exact_validators (JFloat x) = Inr x"
  "int_validator exact_validators (JInt i) = Inr i"
  "str_validator exact_validators JNull = Inl ValidationError"
  "float_validator exact_validators JNull = Inl ValidationError"
  "int_validator exact_validators JNull = Inl ValidationError"
  "str_validator exact_validators v = Inl e \<Longrightarrow> e = ValidationError"
  "float_validator exact_validators v = Inl e \<Longrightarrow> e = ValidationError"
  "int_validator exact_validators v = Inl e \<Longrightarrow> e = ValidationError"
  by (cases v; simp add: exact_validators_def str_field_def float_field_def int_field_def)+

lemma new_CompressedApplication_dict: "new_CompressedApplication (app_dict app) = Inr app"
  using typed_dicts(5) [of exact_validators app]
  by (simp add: new_CompressedApplication_def validate_document_iff exact_validators_sound)

text \<open>
  C3, as stated, fails: the document whose three personal strings are empty and whose
  rates and hours are negative is accepted by the validation and violates the
  invariant of the specification.
\<close>

theorem blank_document_counterexample:
  "new_CompressedApplication (app_dict blank_document) = Inr blank_document \<and>
   \<not> spec_invariant blank_document"
  by (simp add: new_CompressedApplication_dict spec_invariant_def blank_document_def)

text \<open>
  C3, amended: the validation checks types and shape only. For all scalar validators
  that leave a value of the declared type as it is, reject null and fail with a
  ValidationError: every document of the declared types is accepted, whatever its
  strings and numbers; a document is accepted exactly when it is a dictionary whose
  \<open>personal\<close>, \<open>experience\<close> and \<open>salary\<close> are there, \<open>experience\<close> being a possibly empty
  list of entries, and every field passes the validator of its declared type, the
  required ones being there and not null; a document that is not a dictionary fails
  with a TypeError, and a dictionary that lacks the required shape or has a field that
  its validator rejects fails with a ValidationError.
\<close>

theorem validation_checks_types_and_shape:
  assumes "\<And>s. str_validator V (JStr s) = Inr s"
    and "\<And>x. float_validator V (JFloat x) = Inr x"
    and "\<And>i. int_validator V (JInt i) = Inr i"
    and "str_validator V JNull = Inl ValidationError"
    and "float_validator V JNull = Inl ValidationError"
    and "int_validator V JNull = Inl ValidationError"
    and "\<And>x e. str_validator V x = Inl e \<Longrightarrow> e = ValidationError"
    and "\<And>x e. float_validator V x = Inl e \<Longrightarrow> e = ValidationError"
    and "\<And>x e. int_validator V x = Inl e \<Longrightarrow> e = ValidationError"
  shows "validate_document V (app_dict app) = Inr app \<and>
         (validate_document V data = Inr app' \<longleftrightarrow> document_typed V data app') \<and>
         (document_typed V data app' \<longrightarrow> required_shape data) \<and>
         (\<not> is_dict data \<longrightarrow> validate_document V data = Inl TypeError) \<and>
         (is_dict data \<and> \<not> required_shape data
            \<longrightarrow> validate_document V data = Inl ValidationError) \<and>
         (is_dict data \<and> validate_document V data = Inl e \<longrightarrow> e = ValidationError)"
proof -
  have accepted: "validate_document V (app_dict app) = Inr app"
    using typed_dicts(5) [OF assms(1-3)] by (simp add: validate_document_iff)
  have shape: "required_shape data" if "document_typed V data app'"
    using that assms(4-6) by (rule document_typed_shape)
  have not_dict: "validate_document V data = Inl TypeError" if "\<not> is_dict data"
    using that by (cases data) (simp_all add: validate_document_def is_dict_def)
  have kind: "e = ValidationError" if "is_dict data \<and> validate_document V data = Inl e" for e
    using validate_document_error [where V = V and data = data and e = e] assms(7-9) that
    by auto
  have no_shape: "validate_document V data = Inl ValidationError"
    if "is_dict data \<and> \<not> required_shape data"
  proof (cases "validate_document V data")
    case (Inl e)
    then show ?thesis using kind [of e] that by simp
  next
    case (Inr x)
    then show ?thesis
      using document_typed_shape [OF _ assms(4-6), of data x] that
      by (simp add: validate_document_iff)
  qed
  show ?thesis
    using accepted validate_document_iff [of V data app'] shape not_dict no_shape kind
    by blast
qed

text \<open>
  A dictionary without the required shape, and the blank document with hours that are
  not a number.
\<close>

theorem validation_checks_types_and_shape_witness:
  "validate_document exact_validators (app_dict blank_document) = Inr blank_document \<and>
   document_typed exact_validators (app_dict blank_document) blank_document \<and>
   required_shape (app_dict blank_document) \<and>
   \<not> is_dict (JList []) \<and>
   validate_document exact_validators (JList []) = Inl TypeError \<and>
   is_dict (JDict [(''personal'', JNull), (''experience'', JList [])]) \<and>
   \<not> required_shape (JDict [(''personal'', JNull), (''experience'', JList [])]) \<and>
   validate_document exact_validators (JDict [(''personal'', JNull), (''experience'', JList [])])
     = Inl ValidationError \<and>
   is_dict (JDict [(''personal'', personal_dict (personal blank_document)),
                   (''experience'', JList []),
                   (''salary'', JDict [(''preferred_rate'', JFloat 50),
                                       (''minimum_rate'', JFloat 40),
                                       (''currency'', JStr (py ''USD'')),
                                       (''availability_hours'', JStr (py ''many''))])]) \<and>
   validate_document exact_validators
     (JDict [(''personal'', personal_dict (personal blank_document)),
             (''experience'', JList []),
             (''salary'', JDict [(''preferred_rate'', JFloat 50),
                                 (''minimum_rate'', JFloat 40),
                                 (''currency'', JStr (py ''USD'')),
                                 (''availability_hours'', JStr (py ''many''))])])
     = Inl ValidationError"
proof -
  let ?d1 = "JDict [(''personal'', JNull), (''experience'', JList [])]"
  let ?d2 = "JDict [(''personal'', personal_dict (personal blank_document)),
             (''experience'', JList []),
             (''salary'', JDict [(''preferred_rate'', JFloat 50),
                                 (''minimum_rate'', JFloat 40),
                                 (''currency'', JStr (py ''USD'')),
                                 (''availability_hours'', JStr (py ''many''))])]"
  have a: "\<not> is_dict (JList [])" "is_dict ?d1" "is_dict ?d2"
    by (simp_all add: is_dict_def)
  have b: "\<not> required_shape ?d1"
    by (simp add: required_shape_def part_shape_def personal_shape_def)
  have c: "\<exists>e. validate_document exact_validators ?d2 = Inl e"
    by (simp add: validate_document_def required_def validate_personal_def personal_dict_def
        blank_document_def validate_experience_def validate_salary_def exact_validators_def
        str_field_def float_field_def int_field_def optional_def optional_json_def
        bind_result_def)
  then obtain e where e: "validate_document exact_validators ?d2 = Inl e" by blast
  from a b e
    validation_checks_types_and_shape
      [where V = exact_validators and app = blank_document
         and data = "app_dict blank_document" and app' = blank_document and e = e,
       OF exact_validators_sound]
    validation_checks_types_and_shape
      [where V = exact_validators and app = blank_document
         and data = "JList []" and app' = blank_document and e = e,
       OF exact_validators_sound]
    validation_checks_types_and_shape
      [where V = exact_validators and app = blank_document
         and data = ?d1 and app' = blank_document and e = e,
       OF exact_validators_sound]
    validation_checks_types_and_shape
      [where V = exact_validators and app = blank_document
         and data = ?d2 and app' = blank_document and e = e,
       OF exact_validators_sound]
  show ?thesis by auto
qed


subsection \<open>The Shortlist Evaluator\<close>

lemma stored_document_example:
  "t \<noteq> [] \<Longrightarrow>
   stored_document (loads_only t d) (store_with_document (JStr t)) (py ''A1'')
     = new_CompressedApplication d"
  unfolding stored_document_def get_applicant_example
  by (simp add: bind_result_def COMPRESSED_JSON_FIELD_def APPLICANT_ID_FIELD_def
      parse_document_def loads_only_def)

lemma experience_loop_model:
  "experience_loop today acc (ModelObj w # objs) = Inl AttributeError"
  by (simp add: experience_step_def obj_get_def bind_result_def)

lemma calculate_experience_years_models:
  "ws \<noteq> [] \<Longrightarrow> calculate_experience_years today (map ModelObj ws) = Inl AttributeError"
  by (cases ws) (simp_all add: calculate_experience_years_def experience_loop_model
      del: experience_loop.simps)

lemma evaluate_document_nonempty:
  "experience app \<noteq> [] \<Longrightarrow> evaluate_document today app = Inl AttributeError"
  by (simp add: evaluate_document_def calculate_experience_years_models bind_result_def)

lemma evaluate_document_empty:
  "experience app = [] \<Longrightarrow>
   evaluate_document today app = Inr c \<Longrightarrow>
     \<not> experience_qualified c \<and>
     (compensation_qualified c \<longleftrightarrow>
        usd_rate_of (salary app) \<le> 100 \<and> availability_hours (salary app) \<ge> 20) \<and>
     (location_qualified c \<longleftrightarrow>
        list_ex (\<lambda>l. contains (upper (location (personal app))) (upper l)) ELIGIBLE_LOCATIONS)"
  by (auto simp: evaluate_document_def calculate_experience_years_def bind_result_def
      MIN_EXPERIENCE_YEARS_def MAX_HOURLY_RATE_def MIN_AVAILABILITY_HOURS_def Let_def)

lemma experience_never_qualified:
  "\<not> experience_qualified (evaluate_applicant today loads st applicant_id)"
proof (cases "stored_document loads st applicant_id")
  case (Inl e)
  then show ?thesis
    by (simp add: evaluate_applicant_def evaluate_try_def bind_result_def error_criteria_def)
next
  case (Inr app)
  show ?thesis
  proof (cases "experience app = []")
    case True
    then show ?thesis using Inr
      by (simp add: evaluate_applicant_def evaluate_try_def bind_result_def
          evaluate_document_def calculate_experience_years_def MIN_EXPERIENCE_YEARS_def
          Let_def)
  next
    case False
    then show ?thesis using Inr
      by (simp add: evaluate_applicant_def evaluate_try_def bind_result_def
          evaluate_document_nonempty error_criteria_def)
  qed
qed

lemma example_evaluation:
  "evaluate_applicant today (loads_only example_text (app_dict example_document))
     (store_with_document (JStr example_text)) (py ''A1'') = error_criteria AttributeError"
proof -
  have ne: "example_text \<noteq> []" by (simp add: example_text_def)
  have sd: "stored_document (loads_only example_text (app_dict example_document))
      (store_with_document (JStr example_text)) (py ''A1'') = Inr example_document"
    by (rule trans [OF stored_document_example [OF ne] new_CompressedApplication_dict])
  have "experience example_document \<noteq> []" by (simp add: example_document_def)
  then show ?thesis
    unfolding evaluate_applicant_def evaluate_try_def sd
    by (simp add: evaluate_document_nonempty bind_result_def)
qed

lemmas date_eval =
  strptime_def match_year_def match_dash_def match_month_def match_day_def isdigit_def
  in_range_def digit_value_def days_in_month_def is_leap_def toordinal_def
  days_before_year_def days_before_month_def upt_conv_Cons

text \<open>
  Read as dictionaries with the keys of the document, the entries add no duration
  either: the loop asks for the keys \<open>start\<close> and \<open>end\<close>, the document has \<open>start_date\<close>
  and \<open>end_date\<close>, and the empty default is not a date.
\<close>

lemma experience_step_dict:
  "\<exists>tier. experience_step today (years, t0) (DictObj (experience_items w)) = Inr (years, tier)"
  by (simp add: experience_step_def obj_get_def get_or_def experience_items_def
      value_lower_def duration_years_def value_strptime_def strptime_def match_year_def
      bind_result_def is_value_or_type_error_def)

lemma experience_loop_dicts:
  "\<exists>tier. experience_loop today (years, t0) (map (\<lambda>w. DictObj (experience_items w)) ws)
            = Inr (years, tier)"
proof (induction ws arbitrary: t0)
  case Nil
  show ?case by simp
next
  case (Cons w ws)
  obtain tier where "experience_step today (years, t0) (DictObj (experience_items w))
      = Inr (years, tier)"
    using experience_step_dict by blast
  with Cons [of tier] show ?case by (simp add: bind_result_def)
qed

text \<open>The conversion to USD and the location test, as the evaluator computes them.\<close>

lemma usd_rate_table:
  "usd_rate_of s = preferred_rate s *
     (if upper (currency s) = py ''EUR'' then 11 / 10
      else if upper (currency s) = py ''GBP'' then 13 / 10
      else if upper (currency s) = py ''CAD'' then 3 / 4
      else if upper (currency s) = py ''INR'' then 12 / 1000
      else 1)"
  by (simp add: usd_rate_of_def conversion_rates_def Let_def)

lemma location_with_us_eligible:
  "contains (upper loc) (py ''US'') \<Longrightarrow>
   list_ex (\<lambda>eligible_loc. contains (upper loc) (upper eligible_loc)) ELIGIBLE_LOCATIONS"
  by (simp add: ELIGIBLE_LOCATIONS_def upper_def upper_cp_def)

text \<open>
  C1 at the example document: its only entry is at \<open>Google Inc\<close>, which contains the
  tier-1 name \<open>Google\<close>, and lasts from 2015-01-01 to 2020-01-01, more than four years
  of 365.25 days. The evaluator does not find the applicant qualified on experience:
  \<open>exp.get\<close> raises on the first entry and the \<open>except\<close> branch returns the all-false
  criteria.
\<close>

theorem example_experience_not_qualified:
  "experience_qualified
     (evaluate_applicant example_today (loads_only example_text (app_dict example_document))
        (store_with_document (JStr example_text)) (py ''A1'')) = False \<and>
   score_reason
     (evaluate_applicant example_today (loads_only example_text (app_dict example_document))
        (store_with_document (JStr example_text)) (py ''A1''))
     = [ErrorDuringEvaluation AttributeError] \<and>
   list_ex (\<lambda>tier_company. contains (lower (py ''Google Inc'')) (lower tier_company))
     TIER_1_COMPANIES \<and>
   strptime (py ''2015-01-01'') = Some 735599 \<and> strptime (py ''2020-01-01'') = Some 737425 \<and>
   (of_int (737425 - 735599) / (1461 / 4) :: rat) \<ge> MIN_EXPERIENCE_YEARS"
  unfolding example_evaluation
  by (simp add: error_criteria_def TIER_1_COMPANIES_def lower_def
      lower_cp_def startswith_def date_eval MIN_EXPERIENCE_YEARS_def)

text \<open>
  C4 at the example document: 90 EUR are 99 USD, which is at most 100, and 20 hours are
  at least 20, yet the evaluator reports the applicant as not qualified on
  compensation, because the evaluation has failed before the compensation is looked at.
\<close>

theorem example_compensation_not_qualified:
  "compensation_qualified
     (evaluate_applicant example_today (loads_only example_text (app_dict example_document))
        (store_with_document (JStr example_text)) (py ''A1'')) = False \<and>
   usd_rate_of (salary example_document) = 99 \<and>
   usd_rate_of (salary example_document) \<le> MAX_HOURLY_RATE \<and>
   availability_hours (salary example_document) \<ge> MIN_AVAILABILITY_HOURS"
  unfolding example_evaluation
  by (simp add: error_criteria_def usd_rate_table example_document_def
      upper_def upper_cp_def MAX_HOURLY_RATE_def MIN_AVAILABILITY_HOURS_def)

text \<open>
  C10 at the example document: the location \<open>Australia\<close> contains \<open>US\<close> when both are put
  in upper case, yet the evaluator reports the applicant as not qualified on location,
  for the same reason.
\<close>

theorem example_location_not_qualified:
  "location_qualified
     (evaluate_applicant example_today (loads_only example_text (app_dict example_document))
        (store_with_document (JStr example_text)) (py ''A1'')) = False \<and>
   contains (upper (location (personal example_document))) (upper (py ''US''))"
  unfolding example_evaluation
  by (simp add: error_criteria_def example_document_def upper_def
      upper_cp_def startswith_def)

subsection \<open>The upserts\<close>

lemma matches_update:
  "APPLICANT_ID_FIELD \<notin> fst ` set data \<Longrightarrow>
   matches a (r\<lparr>cells := cells r ++ map_of data\<rparr>) = matches a r"
  by (simp add: matches_def map_add_def map_of_eq_None_iff [THEN iffD2])

lemma filter_matches_update:
  assumes "APPLICANT_ID_FIELD \<notin> fst ` set data"
  shows "filter (matches a)
           (map (\<lambda>r. if row_id r = rid then r\<lparr>cells := cells r ++ map_of data\<rparr> else r) rows)
         = map (\<lambda>r. if row_id r = rid then r\<lparr>cells := cells r ++ map_of data\<rparr> else r)
             (filter (matches a) rows)"
  by (induction rows) (auto simp: matches_update [OF assms])

lemma upsert_one_result:
  assumes "reachable st" and "APPLICANT_ID_FIELD \<notin> fst ` set data"
  shows "\<exists>rp. first_or_none (filter (matches a) (tables (snd (upsert_one t st a data)) t)) = Some rp
            \<and> (\<forall>k v. map_of data k = Some v \<longrightarrow> cells rp k = Some v)"
proof (cases "filter (matches a) (tables st t)")
  case Nil
  have "map_of data APPLICANT_ID_FIELD = None"
    using assms(2) by (simp add: map_of_eq_None_iff)
  with Nil show ?thesis using assms(1)
    by (auto simp: upsert_one_def table_all_by_id_def bind_result_def first_or_none_def
        table_create_def caught_def matches_def)
next
  case (Cons r0 rest)
  then show ?thesis using assms(1)
    by (simp add: upsert_one_def table_all_by_id_def bind_result_def first_or_none_def
        table_update_def caught_def filter_matches_update [OF assms(2)] map_add_def)
qed

lemma upsert_one_frame:
  "reachable (snd (upsert_one t st a data)) = reachable st"
  "t' \<noteq> t \<Longrightarrow> tables (snd (upsert_one t st a data)) t' = tables st t'"
  by (auto simp: upsert_one_def table_all_by_id_def bind_result_def first_or_none_def
      table_update_def table_create_def caught_def split: list.splits)

lemma delete_rows_result:
  "reachable st \<Longrightarrow>
   \<exists>st'. delete_rows st t rs = Inr st' \<and> reachable st' \<and>
         tables st' = (tables st)(t := filter (\<lambda>r. row_id r \<notin> row_id ` set rs) (tables st t))"
proof (induction rs arbitrary: st)
  case Nil
  then show ?case by simp
next
  case (Cons r rs)
  let ?st1 = "st\<lparr>tables := (tables st)(t := filter (\<lambda>x. row_id x \<noteq> row_id r) (tables st t))\<rparr>"
  have "reachable ?st1" using Cons.prems by simp
  from Cons.IH [OF this] obtain st' where
    "delete_rows ?st1 t rs = Inr st'" "reachable st'"
    "tables st' = (tables ?st1)(t := filter (\<lambda>x. row_id x \<notin> row_id ` set rs) (tables ?st1 t))"
    by blast
  then show ?case using Cons.prems
    by (auto simp: table_delete_def bind_result_def fun_eq_iff intro!: filter_cong)
qed

lemma create_rows_result:
  "reachable st \<Longrightarrow>
   \<exists>st' new. create_rows st t a es = Inr st' \<and> reachable st' \<and>
         tables st' = (tables st)(t := tables st t @ new) \<and>
         map cells new = map (\<lambda>e. (map_of e)(APPLICANT_ID_FIELD \<mapsto> JStr a)) es"
proof (induction es arbitrary: st)
  case Nil
  then show ?case by (intro exI [of _ st] exI [of _ "[]"]) simp
next
  case (Cons e es)
  let ?row = "\<lparr>row_id = next_id st, cells = (map_of e)(APPLICANT_ID_FIELD \<mapsto> JStr a)\<rparr>"
  let ?st1 = "st\<lparr>tables := (tables st)(t := tables st t @ [?row]), next_id := Suc (next_id st)\<rparr>"
  have "reachable ?st1" using Cons.prems by simp
  from Cons.IH [OF this] obtain st' new where
    "create_rows ?st1 t a es = Inr st'" "reachable st'"
    "tables st' = (tables ?st1)(t := tables ?st1 t @ new)"
    "map cells new = map (\<lambda>e. (map_of e)(APPLICANT_ID_FIELD \<mapsto> JStr a)) es"
    by blast
  then show ?case using Cons.prems
    by (intro exI [of _ st'] exI [of _ "?row # new"])
       (auto simp add: table_create_def bind_result_def fun_eq_iff)
qed

lemma upsert_work_experience_result:
  assumes "reachable st"
  shows "\<exists>rows. filter (matches a)
             (tables (snd (upsert_work_experience st a es)) WorkExperienceTable) = rows \<and>
           map cells rows = map (\<lambda>e. (map_of e)(APPLICANT_ID_FIELD \<mapsto> JStr a)) es"
    and "reachable (snd (upsert_work_experience st a es))"
    and "t' \<noteq> WorkExperienceTable \<Longrightarrow>
           tables (snd (upsert_work_experience st a es)) t' = tables st t'"
proof -
  let ?existing = "filter (matches a) (tables st WorkExperienceTable)"
  from delete_rows_result [OF assms, of WorkExperienceTable ?existing] obtain st1 where
    d: "delete_rows st WorkExperienceTable ?existing = Inr st1" "reachable st1"
    "tables st1 = (tables st)(WorkExperienceTable :=
        filter (\<lambda>r. row_id r \<notin> row_id ` set ?existing) (tables st WorkExperienceTable))"
    by blast
  from create_rows_result [OF d(2), of WorkExperienceTable a es] obtain st2 new where
    c: "create_rows st1 WorkExperienceTable a es = Inr st2" "reachable st2"
    "tables st2 = (tables st1)(WorkExperienceTable := tables st1 WorkExperienceTable @ new)"
    "map cells new = map (\<lambda>e. (map_of e)(APPLICANT_ID_FIELD \<mapsto> JStr a)) es"
    by blast
  have st2: "snd (upsert_work_experience st a es) = st2"
    using assms d(1) c(1)
    by (simp add: upsert_work_experience_def get_work_experience_def table_all_by_id_def
        bind_result_def)
  have none_left: "filter (matches a) (tables st1 WorkExperienceTable) = []"
    by (auto simp: d(3) filter_empty_conv)
  have all_new: "filter (matches a) new = new"
  proof -
    have "\<forall>c \<in> set (map cells new). c APPLICANT_ID_FIELD = Some (JStr a)"
      unfolding c(4) by simp
    then show ?thesis by (auto simp: matches_def filter_id_conv)
  qed
  show "\<exists>rows. filter (matches a)
             (tables (snd (upsert_work_experience st a es)) WorkExperienceTable) = rows \<and>
           map cells rows = map (\<lambda>e. (map_of e)(APPLICANT_ID_FIELD \<mapsto> JStr a)) es"
    by (simp add: st2 c(3) none_left all_new c(4))
  show "reachable (snd (upsert_work_experience st a es))" by (simp add: st2 c(2))
  show "tables (snd (upsert_work_experience st a es)) t' = tables st t'"
    if "t' \<noteq> WorkExperienceTable"
    using that by (simp add: st2 c(3) d(3))
qed

subsection \<open>Decompress, then compress\<close>

lemma get_applicant_reachable: "get_applicant_by_id st a = Inr x \<Longrightarrow> reachable st"
  by (simp add: get_applicant_by_id_def table_all_by_id_def bind_result_def split: if_splits)

lemma decompress_result:
  assumes "get_applicant_by_id st a = Inr (Some r)"
    and "cells r COMPRESSED_JSON_FIELD = Some (JStr text)"
    and "text \<noteq> []"
    and "loads text = Some (app_dict D)"
  shows "decompress_applicant_data loads st a = (True, upsert_all st a D)"
  using assms
  by (simp add: decompress_applicant_data_def decompress_try_def stored_document_def
      parse_document_def new_CompressedApplication_dict bind_result_def)

lemma upsert_personal_details_frame:
  "reachable (snd (upsert_personal_details st a data)) = reachable st"
  "t' \<noteq> PersonalDetailsTable \<Longrightarrow>
     tables (snd (upsert_personal_details st a data)) t' = tables st t'"
  by (simp_all add: upsert_personal_details_def upsert_one_frame)

lemma upsert_salary_preferences_frame:
  "reachable (snd (upsert_salary_preferences st a data)) = reachable st"
  "t' \<noteq> SalaryPreferencesTable \<Longrightarrow>
     tables (snd (upsert_salary_preferences st a data)) t' = tables st t'"
  by (simp_all add: upsert_salary_preferences_def upsert_one_frame)

lemma upsert_all_views:
  assumes "reachable st"
  shows "reachable (upsert_all st a D)"
    and "tables (upsert_all st a D) Applicants = tables st Applicants"
    and "\<exists>rp. first_or_none (filter (matches a) (tables (upsert_all st a D) PersonalDetailsTable))
               = Some rp \<and>
             (\<forall>k v. map_of (personal_data (personal D)) k = Some v \<longrightarrow> cells rp k = Some v)"
    and "map cells (filter (matches a) (tables (upsert_all st a D) WorkExperienceTable))
           = map (\<lambda>e. (map_of e)(APPLICANT_ID_FIELD \<mapsto> JStr a))
               (map experience_data (experience D))"
    and "\<exists>rs. first_or_none (filter (matches a) (tables (upsert_all st a D) SalaryPreferencesTable))
               = Some rs \<and>
             (\<forall>k v. map_of (salary_data (salary D)) k = Some v \<longrightarrow> cells rs k = Some v)"
proof -
  let ?st1 = "snd (upsert_personal_details st a (personal_data (personal D)))"
  let ?st2 = "snd (upsert_work_experience ?st1 a (map experience_data (experience D)))"
  let ?st3 = "snd (upsert_salary_preferences ?st2 a (salary_data (salary D)))"
  have all: "upsert_all st a D = ?st3" by (simp add: upsert_all_def Let_def)
  have r1: "reachable ?st1"
    using assms by (simp add: upsert_personal_details_frame)
  have r2: "reachable ?st2" using upsert_work_experience_result(2) [OF r1] .
  have p_keys: "APPLICANT_ID_FIELD \<notin> fst ` set (personal_data (personal D))"
    by (simp add: personal_data_def APPLICANT_ID_FIELD_def)
  have s_keys: "APPLICANT_ID_FIELD \<notin> fst ` set (salary_data (salary D))"
    by (simp add: salary_data_def APPLICANT_ID_FIELD_def)
  show "reachable (upsert_all st a D)"
    using r2 by (simp add: all upsert_salary_preferences_frame)
  show "tables (upsert_all st a D) Applicants = tables st Applicants"
    by (simp add: all upsert_salary_preferences_frame upsert_personal_details_frame
        upsert_work_experience_result(3) [OF r1])
  have "tables ?st3 PersonalDetailsTable = tables ?st1 PersonalDetailsTable"
    by (simp add: upsert_salary_preferences_frame
        upsert_work_experience_result(3) [OF r1])
  then show "\<exists>rp. first_or_none (filter (matches a) (tables (upsert_all st a D) PersonalDetailsTable))
               = Some rp \<and>
             (\<forall>k v. map_of (personal_data (personal D)) k = Some v \<longrightarrow> cells rp k = Some v)"
    using upsert_one_result [OF assms p_keys, of a PersonalDetailsTable]
    by (simp add: all upsert_personal_details_def)
  have "tables ?st3 WorkExperienceTable = tables ?st2 WorkExperienceTable"
    by (simp add: upsert_salary_preferences_frame)
  then show "map cells (filter (matches a) (tables (upsert_all st a D) WorkExperienceTable))
           = map (\<lambda>e. (map_of e)(APPLICANT_ID_FIELD \<mapsto> JStr a))
               (map experience_data (experience D))"
    using upsert_work_experience_result(1) [OF r1, of a "map experience_data (experience D)"]
    by (simp add: all)
  show "\<exists>rs. first_or_none (filter (matches a) (tables (upsert_all st a D) SalaryPreferencesTable))
               = Some rs \<and>
             (\<forall>k v. map_of (salary_data (salary D)) k = Some v \<longrightarrow> cells rs k = Some v)"
    using upsert_one_result [OF r2 s_keys, of a SalaryPreferencesTable]
    by (simp add: all upsert_salary_preferences_def)
qed

lemma optional_json_filled: "optional_json (Some (or_empty v)) = JStr (or_empty v)"
  by (simp add: optional_json_def)

lemma compressed_data_filled:
  assumes "\<forall>k v. map_of (personal_data (personal D)) k = Some v \<longrightarrow> cells rp k = Some v"
    and "map cells rows = map (\<lambda>e. (map_of e)(APPLICANT_ID_FIELD \<mapsto> JStr a))
               (map experience_data (experience D))"
    and "\<forall>k v. map_of (salary_data (salary D)) k = Some v \<longrightarrow> cells rs k = Some v"
  shows "compressed_data rp rows rs = app_dict (fill_optional D)"
proof -
  let ?g = "\<lambda>c. JDict
           [(''company'', get_or c ''Company'' (JStr [])),
            (''title'', get_or c ''Title'' (JStr [])),
            (''start_date'', get_or c ''Start'' (JStr [])),
            (''end_date'', get_or c ''End'' (JStr [])),
            (''technologies'', get_or c ''Technologies'' (JStr []))]"
  have p: "cells rp ''Full Name'' = Some (JStr (full_name (personal D)))"
    "cells rp ''Email'' = Some (JStr (email (personal D)))"
    "cells rp ''Location'' = Some (JStr (location (personal D)))"
    "cells rp ''LinkedIn'' = Some (JStr (or_empty (linkedin (personal D))))"
    using assms(1) by (simp_all add: personal_data_def)
  have s: "cells rs ''Preferred Rate'' = Some (JFloat (preferred_rate (salary D)))"
    "cells rs ''Minimum Rate'' = Some (JFloat (minimum_rate (salary D)))"
    "cells rs ''Currency'' = Some (JStr (currency (salary D)))"
    "cells rs ''Availability (hrs/wk)'' = Some (JInt (availability_hours (salary D)))"
    using assms(3) by (simp_all add: salary_data_def)
  have "map (\<lambda>r. ?g (cells r)) rows = map ?g (map cells rows)" by simp
  also have "\<dots> = map (\<lambda>w. experience_dict (fill_entry w)) (experience D)"
    unfolding assms(2)
    by (simp add: experience_data_def experience_dict_def experience_items_def fill_entry_def
        get_or_def APPLICANT_ID_FIELD_def optional_json_def)
  finally have e: "map (\<lambda>r. ?g (cells r)) rows
      = map (\<lambda>w. experience_dict (fill_entry w)) (experience D)" .
  show ?thesis
    unfolding compressed_data_def e
    by (simp add: p s get_or_def app_dict_def fill_optional_def personal_dict_def salary_dict_def
        optional_json_def comp_def)
qed

lemma roundtrip_general:
  assumes "get_applicant_by_id st a = Inr (Some r)"
    and "cells r COMPRESSED_JSON_FIELD = Some (JStr text)"
    and "text \<noteq> []"
    and "loads text = Some (app_dict D)"
  shows "fst (decompress_applicant_data loads st a) = True \<and>
         returned_text (compress_applicant_data dumps
            (snd (decompress_applicant_data loads st a)) a)
           = Inr (dumps (app_dict (fill_optional D)))"
proof -
  let ?st3 = "upsert_all st a D"
  have reach: "reachable st" using assms(1) by (rule get_applicant_reachable)
  note v = upsert_all_views [OF reach, of a D]
  from v(3) obtain rp where rp:
    "first_or_none (filter (matches a) (tables ?st3 PersonalDetailsTable)) = Some rp"
    "\<forall>k v. map_of (personal_data (personal D)) k = Some v \<longrightarrow> cells rp k = Some v"
    by blast
  from v(5) obtain rs where rs:
    "first_or_none (filter (matches a) (tables ?st3 SalaryPreferencesTable)) = Some rs"
    "\<forall>k v. map_of (salary_data (salary D)) k = Some v \<longrightarrow> cells rs k = Some v"
    by blast
  let ?rows = "filter (matches a) (tables ?st3 WorkExperienceTable)"
  have data: "compressed_data rp ?rows rs = app_dict (fill_optional D)"
    using rp(2) v(4) rs(2) by (rule compressed_data_filled)
  have applicant: "get_applicant_by_id ?st3 a = Inr (Some r)"
    using assms(1) reach v(1) v(2)
    by (simp add: get_applicant_by_id_def table_all_by_id_def)
  have written: "fst (update_compressed_json ?st3 a t) = True" for t
    using v(1)
    by (simp add: update_compressed_json_def update_fields_of_applicant_def applicant
        table_update_def caught_def)
  obtain st4 where w:
    "update_compressed_json ?st3 a (dumps (app_dict (fill_optional D))) = (True, st4)"
    using written [of "dumps (app_dict (fill_optional D))"]
    by (cases "update_compressed_json ?st3 a (dumps (app_dict (fill_optional D)))") auto
  have "returned_text (compress_applicant_data dumps ?st3 a)
      = Inr (dumps (app_dict (fill_optional D)))"
    using v(1) rp(1) rs(1)
    by (simp add: compress_applicant_data_def get_personal_details_def
        get_work_experience_def get_salary_preferences_def table_all_by_id_def bind_result_def
        data new_CompressedApplication_dict returned_text_def w)
  then show ?thesis using decompress_result [of st a r "text" loads D] assms by simp
qed

lemma fill_optional_complete:
  "linkedin (personal D) \<noteq> None \<and>
   (\<forall>w \<in> set (experience D). end_date w \<noteq> None \<and> technologies w \<noteq> None)
   \<Longrightarrow> fill_optional D = D"
proof -
  assume a: "linkedin (personal D) \<noteq> None \<and>
   (\<forall>w \<in> set (experience D). end_date w \<noteq> None \<and> technologies w \<noteq> None)"
  have "fill_entry w = w" if "w \<in> set (experience D)" for w
    using a that by (auto simp: fill_entry_def or_empty_def)
  then have "map fill_entry (experience D) = experience D"
    by (simp add: map_idI)
  moreover have "(personal D)\<lparr>linkedin := Some (or_empty (linkedin (personal D)))\<rparr> = personal D"
    using a by (auto simp: or_empty_def)
  ultimately show ?thesis by (simp add: fill_optional_def)
qed

text \<open>
  C2, amended: for every document \<open>D\<close> of the declared types whose text is the document
  field of an applicant, the Decompressor succeeds and the Compressor run after it
  returns the text of \<open>D\<close> with each absent optional field (\<open>linkedin\<close>, \<open>end_date\<close>,
  \<open>technologies\<close>) replaced by the empty string, the experience entries in the order of
  \<open>D\<close>; when no optional field of \<open>D\<close> is absent this is the text of \<open>D\<close> itself.
  \<open>json.loads\<close> is assumed to read the stored text back as the dictionary of \<open>D\<close>.
\<close>

theorem roundtrip_fills_optional:
  assumes "get_applicant_by_id st a = Inr (Some r)"
    and "cells r COMPRESSED_JSON_FIELD = Some (JStr doc_text)"
    and "doc_text \<noteq> []"
    and "loads doc_text = Some (app_dict D)"
  shows "fst (decompress_applicant_data loads st a) = True \<and>
         returned_text (compress_applicant_data dumps
            (snd (decompress_applicant_data loads st a)) a)
           = Inr (dumps (app_dict (fill_optional D))) \<and>
         (linkedin (personal D) \<noteq> None \<and>
          (\<forall>w \<in> set (experience D). end_date w \<noteq> None \<and> technologies w \<noteq> None)
            \<longrightarrow> fill_optional D = D)"
  using roundtrip_general [of st a r doc_text loads D dumps] assms fill_optional_complete [of D]
  by blast

lemma example_cell:
  "cells \<lparr>row_id = 0, cells = [APPLICANT_ID_FIELD \<mapsto> JStr (py ''A1''),
        COMPRESSED_JSON_FIELD \<mapsto> JStr example_text]\<rparr> COMPRESSED_JSON_FIELD
     = Some (JStr example_text)"
  by simp

lemma example_text_nonempty: "example_text \<noteq> []"
  by (simp add: example_text_def)

theorem roundtrip_fills_optional_witness:
  "fst (decompress_applicant_data (loads_only example_text (app_dict complete_document))
          (store_with_document (JStr example_text)) (py ''A1'')) = True \<and>
   returned_text (compress_applicant_data
      (dumps_only example_text (app_dict complete_document) other_text)
      (snd (decompress_applicant_data (loads_only example_text (app_dict complete_document))
              (store_with_document (JStr example_text)) (py ''A1''))) (py ''A1''))
     = Inr example_text \<and>
   fill_optional complete_document = complete_document"
proof -
  have l: "loads_only example_text (app_dict complete_document) example_text
      = Some (app_dict complete_document)"
    by (simp add: loads_only_def)
  have c: "linkedin (personal complete_document) \<noteq> None \<and>
      (\<forall>w \<in> set (experience complete_document). end_date w \<noteq> None \<and> technologies w \<noteq> None)"
    by (simp add: complete_document_def)
  from roundtrip_fills_optional
      [where loads = "loads_only example_text (app_dict complete_document)"
         and dumps = "dumps_only example_text (app_dict complete_document) other_text",
       OF get_applicant_example example_cell example_text_nonempty l] c
  show ?thesis by (simp add: dumps_only_def)
qed

text \<open>
  C2, as stated, fails for the example document, whose \<open>linkedin\<close> and \<open>technologies\<close> are
  absent: the text that the Compressor returns after the Decompressor is not the text
  of the document.
\<close>

theorem roundtrip_counterexample:
  "returned_text (compress_applicant_data
      (dumps_only example_text (app_dict example_document) other_text)
      (snd (decompress_applicant_data (loads_only example_text (app_dict example_document))
              (store_with_document (JStr example_text)) (py ''A1''))) (py ''A1''))
     \<noteq> Inr example_text"
proof -
  have l: "loads_only example_text (app_dict example_document) example_text
      = Some (app_dict example_document)"
    by (simp add: loads_only_def)
  have d: "app_dict (fill_optional example_document) \<noteq> app_dict example_document"
    by (simp add: app_dict_def fill_optional_def example_document_def personal_dict_def
        optional_json_def)
  have o: "other_text \<noteq> example_text"
    by (simp add: other_text_def example_text_def)
  from roundtrip_general
      [where loads = "loads_only example_text (app_dict example_document)"
         and dumps = "dumps_only example_text (app_dict example_document) other_text",
       OF get_applicant_example example_cell example_text_nonempty l] d o
  show ?thesis by (simp add: dumps_only_def)
qed

subsection \<open>Which operations catch their errors\<close>


lemma returns_return [simp]: "returns (return x) w"
  by (simp add: returns_def return_def)



lemma returns_print_return [simp]: "returns (then_do (print l) (\<lambda>_. return x)) w"
  by (simp add: returns_def then_do_def print_def return_def)







lemma stored_document_split:
  "stored_document loads st a = bind_result (get_applicant_by_id st a) (document_of_record loads)"
  by (cases "get_applicant_by_id st a")
     (simp_all add: stored_document_def document_of_record_def bind_result_def)

lemma get_applicant_by_id_io:
  "get_applicant_by_id_io a w =
     ((if faults w (clock w) then Inl TransportError else get_applicant_by_id (db w) a), tick w)"
  by (simp add: get_applicant_by_id_io_def first_matching_def then_do_def remote_read_def
      return_def get_applicant_by_id_def bind_result_def split: sum.splits)

lemma stored_document_io:
  "stored_document_io loads a w =
     ((if faults w (clock w) then Inl TransportError else stored_document loads (db w) a),
      tick w)"
  by (simp add: stored_document_io_def then_do_def get_applicant_by_id_io compute_def
      stored_document_split bind_result_def split: sum.splits)

lemma decompress_io_error:
  assumes "fst (stored_document_io loads a w) = Inl e"
  shows "decompress_applicant_data_io loads a w
           = (Inr False, (tick w)\<lparr>printed := printed w @ [ErrorDecompressing a e]\<rparr>)"
proof -
  have "stored_document_io loads a w = (Inl e, tick w)"
    using assms by (simp add: stored_document_io)
  then show ?thesis
    by (simp add: decompress_applicant_data_io_def try_except_def then_do_def print_def
        return_def tick_def)
qed












lemma first_matching_eval:
  "first_matching t a w =
     ((if faults w (clock w) then Inl TransportError
       else bind_result (table_all_by_id (db w) t a) (\<lambda>records. Inr (first_or_none records))),
      tick w)"
  by (simp add: first_matching_def then_do_def remote_read_def return_def bind_result_def
      split: sum.splits)








subsection \<open>The operations when no call fails\<close>

lemma upsert_one_io_calm:
  assumes "faults w = (\<lambda>k. False)" and "reachable (db w)"
  shows "\<exists>w'. upsert_one_io t line a data w = (Inr True, w') \<and>
           db w' = snd (upsert_one t (db w) a data) \<and> faults w' = faults w \<and>
           printed w' = printed w \<and> reachable (db w')"
  using assms
  by (cases "first_or_none (filter (matches a) (tables (db w) t))")
     (simp_all add: upsert_one_io_def try_except_def then_do_def first_matching_eval
        remote_write_def upsert_one_def caught_def table_all_by_id_def bind_result_def
        table_update_def table_create_def return_def tick_def)

lemma delete_each_calm:
  assumes "faults w = (\<lambda>k. False)" and "reachable (db w)"
  shows "\<exists>w'. delete_each rs w = (Inr (), w') \<and>
           delete_rows (db w) WorkExperienceTable rs = Inr (db w') \<and> faults w' = faults w \<and>
           printed w' = printed w \<and> reachable (db w')"
  using assms
proof (induction rs arbitrary: w)
  case Nil
  then show ?case by (simp add: return_def)
next
  case (Cons r rs)
  let ?st = "(db w)\<lparr>tables := (tables (db w))(WorkExperienceTable :=
      filter (\<lambda>x. row_id x \<noteq> row_id r) (tables (db w) WorkExperienceTable))\<rparr>"
  let ?w1 = "(tick w)\<lparr>db := ?st\<rparr>"
  have "faults ?w1 = (\<lambda>k. False)" "reachable (db ?w1)"
    using Cons.prems by (simp_all add: tick_def)
  from Cons.IH [OF this] obtain w' where
    "delete_each rs ?w1 = (Inr (), w')"
    "delete_rows (db ?w1) WorkExperienceTable rs = Inr (db w')" "faults w' = faults ?w1"
    "printed w' = printed ?w1" "reachable (db w')"
    by blast
  then show ?case using Cons.prems
    by (simp add: then_do_def remote_write_def table_delete_def bind_result_def tick_def)
qed

lemma create_each_calm:
  assumes "faults w = (\<lambda>k. False)" and "reachable (db w)"
  shows "\<exists>w'. create_each a es w = (Inr (), w') \<and>
           create_rows (db w) WorkExperienceTable a es = Inr (db w') \<and> faults w' = faults w \<and>
           printed w' = printed w \<and> reachable (db w')"
  using assms
proof (induction es arbitrary: w)
  case Nil
  then show ?case by (simp add: return_def)
next
  case (Cons e es)
  let ?st = "(db w)\<lparr>tables := (tables (db w))(WorkExperienceTable :=
        tables (db w) WorkExperienceTable @
          [\<lparr>row_id = next_id (db w), cells = map_of ((APPLICANT_ID_FIELD, JStr a) # e)\<rparr>]),
      next_id := Suc (next_id (db w))\<rparr>"
  let ?w1 = "(tick w)\<lparr>db := ?st\<rparr>"
  have "faults ?w1 = (\<lambda>k. False)" "reachable (db ?w1)"
    using Cons.prems by (simp_all add: tick_def)
  from Cons.IH [OF this] obtain w' where
    "create_each a es ?w1 = (Inr (), w')"
    "create_rows (db ?w1) WorkExperienceTable a es = Inr (db w')" "faults w' = faults ?w1"
    "printed w' = printed ?w1" "reachable (db w')"
    by blast
  then show ?case using Cons.prems
    by (simp add: then_do_def remote_write_def table_create_def bind_result_def tick_def)
qed

lemma upsert_work_experience_io_calm:
  assumes "faults w = (\<lambda>k. False)" and "reachable (db w)"
  shows "\<exists>w'. upsert_work_experience_io a es w = (Inr True, w') \<and>
           db w' = snd (upsert_work_experience (db w) a es) \<and> faults w' = faults w \<and>
           printed w' = printed w \<and> reachable (db w')"
proof -
  let ?rs = "filter (matches a) (tables (db w) WorkExperienceTable)"
  have t: "faults (tick w) = (\<lambda>k. False)" "reachable (db (tick w))"
    using assms by (simp_all add: tick_def)
  from delete_each_calm [OF t, of ?rs] obtain w1 where d:
    "delete_each ?rs (tick w) = (Inr (), w1)"
    "delete_rows (db (tick w)) WorkExperienceTable ?rs = Inr (db w1)" "faults w1 = faults (tick w)"
    "printed w1 = printed (tick w)" "reachable (db w1)"
    by blast
  have c1: "faults w1 = (\<lambda>k. False)" using d(3) t(1) by simp
  from create_each_calm [OF c1 d(5), of a es] obtain w2 where c:
    "create_each a es w1 = (Inr (), w2)"
    "create_rows (db w1) WorkExperienceTable a es = Inr (db w2)" "faults w2 = faults w1"
    "printed w2 = printed w1" "reachable (db w2)"
    by blast
  have "upsert_work_experience_io a es w = (Inr True, w2)"
    using assms d(1) c(1)
    by (simp add: upsert_work_experience_io_def try_except_def then_do_def
        get_work_experience_io_def remote_read_def table_all_by_id_def return_def)
  moreover have "snd (upsert_work_experience (db w) a es) = db w2"
    using assms d(2) c(2)
    by (simp add: upsert_work_experience_def get_work_experience_def table_all_by_id_def
        bind_result_def tick_def)
  ultimately show ?thesis using c d by (simp add: tick_def)
qed

text \<open>
  When no call fails and the store can be reached, the operation with its effects
  returns what the function on the store returns, and leaves the store that the
  function leaves.
\<close>

lemma decompress_io_calm:
  assumes "faults w = (\<lambda>k. False)" and "reachable (db w)"
  shows "fst (decompress_applicant_data_io loads a w)
           = Inr (fst (decompress_applicant_data loads (db w) a)) \<and>
         db (snd (decompress_applicant_data_io loads a w))
           = snd (decompress_applicant_data loads (db w) a)"
proof (cases "stored_document loads (db w) a")
  case (Inl e)
  then have "fst (stored_document_io loads a w) = Inl e"
    using assms(1) by (simp add: stored_document_io)
  from decompress_io_error [OF this] Inl show ?thesis
    by (simp add: decompress_applicant_data_def decompress_try_def bind_result_def tick_def)
next
  case (Inr app)
  then have s: "stored_document_io loads a w = (Inr app, tick w)"
    using assms(1) by (simp add: stored_document_io)
  have t: "faults (tick w) = (\<lambda>k. False)" "reachable (db (tick w))"
    using assms by (simp_all add: tick_def)
  from upsert_one_io_calm [OF t, of PersonalDetailsTable ErrorUpsertingPersonalDetails a
      "personal_data (personal app)"]
  obtain w1 where u1:
    "upsert_personal_details_io a (personal_data (personal app)) (tick w) = (Inr True, w1)"
    "db w1 = snd (upsert_personal_details (db w) a (personal_data (personal app)))"
    "faults w1 = faults (tick w)" "reachable (db w1)"
    unfolding upsert_personal_details_io_def upsert_personal_details_def
    by (auto simp: tick_def)
  have t1: "faults w1 = (\<lambda>k. False)" using u1(3) t(1) by simp
  from upsert_work_experience_io_calm [OF t1 u1(4), of a
      "map experience_data (experience app)"]
  obtain w2 where u2:
    "upsert_work_experience_io a (map experience_data (experience app)) w1 = (Inr True, w2)"
    "db w2 = snd (upsert_work_experience (db w1) a (map experience_data (experience app)))"
    "faults w2 = faults w1" "reachable (db w2)"
    by blast
  have t2: "faults w2 = (\<lambda>k. False)" using u2(3) t1 by simp
  from upsert_one_io_calm [OF t2 u2(4), of SalaryPreferencesTable
      ErrorUpsertingSalaryPreferences a "salary_data (salary app)"]
  obtain w3 where u3:
    "upsert_salary_preferences_io a (salary_data (salary app)) w2 = (Inr True, w3)"
    "db w3 = snd (upsert_salary_preferences (db w2) a (salary_data (salary app)))"
    unfolding upsert_salary_preferences_io_def upsert_salary_preferences_def
    by blast
  have io: "decompress_applicant_data_io loads a w
      = (Inr True, w3\<lparr>printed := printed w3 @ [SuccessfullyDecompressed a]\<rparr>)"
    by (simp add: decompress_applicant_data_io_def try_except_def then_do_def s u1(1) u2(1)
        u3(1) print_def return_def)
  have "decompress_applicant_data loads (db w) a = (True, db w3)"
    using Inr u1(2) u2(2) u3(2)
    by (simp add: decompress_applicant_data_def decompress_try_def bind_result_def
        upsert_all_def Let_def)
  with io show ?thesis by simp
qed


lemma update_compressed_json_io_calm:
  assumes "faults w = (\<lambda>k. False)" and "reachable (db w)"
  shows "\<exists>w'. update_compressed_json_io a j w
               = (Inr (fst (update_compressed_json (db w) a j)), w') \<and>
           db w' = snd (update_compressed_json (db w) a j) \<and> printed w' = printed w"
  using assms
  by (cases "first_or_none (filter (matches a) (tables (db w) Applicants))")
     (simp_all add: update_compressed_json_io_def try_except_def then_do_def
        get_applicant_by_id_io remote_write_def update_compressed_json_def
        update_fields_of_applicant_def get_applicant_by_id_def caught_def
        table_all_by_id_def bind_result_def table_update_def return_def tick_def)

lemma compress_io_calm:
  assumes "faults w = (\<lambda>k. False)" and "reachable (db w)"
  shows "case compress_applicant_data dumps (db w) a of
           Inl e \<Rightarrow> fst (compress_applicant_data_io dumps a w) = Inl e \<and>
                    db (snd (compress_applicant_data_io dumps a w)) = db w
         | Inr (json_string, st') \<Rightarrow>
             fst (compress_applicant_data_io dumps a w) = Inr json_string \<and>
             db (snd (compress_applicant_data_io dumps a w)) = st'"
proof -
  let ?pd = "first_or_none (filter (matches a) (tables (db w) PersonalDetailsTable))"
  let ?we = "filter (matches a) (tables (db w) WorkExperienceTable)"
  let ?sp = "first_or_none (filter (matches a) (tables (db w) SalaryPreferencesTable))"
  let ?w3 = "tick (tick (tick w))"
  have reads: "compress_try_io dumps a w =
      (case (?pd, ?sp) of
         (Some pd, Some sp) \<Rightarrow>
           then_do (compute (new_CompressedApplication (compressed_data pd ?we sp)))
             (\<lambda>compressed_app.
           then_do (update_compressed_json_io a (dumps (app_dict compressed_app)))
             (\<lambda>success.
           if success
           then then_do (print (SuccessfullyCompressed a)) (\<lambda>_.
                return (dumps (app_dict compressed_app)))
           else raise UpdateFailed))
       | _ \<Rightarrow> raise (ValueError MissingRequiredData)) ?w3"
    using assms
    by (simp add: compress_try_io_def then_do_def get_personal_details_io_def
        get_salary_preferences_io_def get_work_experience_io_def first_matching_eval
        remote_read_def table_all_by_id_def bind_result_def tick_def)
  have pure: "compress_applicant_data dumps (db w) a =
      (case (?pd, ?sp) of
         (Some pd, Some sp) \<Rightarrow>
           bind_result (new_CompressedApplication (compressed_data pd ?we sp))
             (\<lambda>compressed_app.
              let json_string = dumps (app_dict compressed_app);
                  (success, st') = update_compressed_json (db w) a json_string
              in if success then Inr (json_string, st') else Inl UpdateFailed)
       | _ \<Rightarrow> Inl (ValueError MissingRequiredData))"
    using assms
    by (simp add: compress_applicant_data_def get_personal_details_def
        get_work_experience_def get_salary_preferences_def table_all_by_id_def
        bind_result_def)
  have w3: "faults ?w3 = (\<lambda>k. False)" "reachable (db ?w3)" "db ?w3 = db w"
    using assms by (simp_all add: tick_def)
  show ?thesis
  proof (cases "?pd")
    case None
    then show ?thesis
      by (simp add: compress_applicant_data_io_def try_except_def reads pure raise_def
          then_do_def print_def tick_def)
  next
    case (Some pd)
    note pd = this
    show ?thesis
    proof (cases "?sp")
      case None
      with pd show ?thesis
        by (simp add: compress_applicant_data_io_def try_except_def reads pure raise_def
            then_do_def print_def tick_def)
    next
      case (Some sp)
      show ?thesis
      proof (cases "new_CompressedApplication (compressed_data pd ?we sp)")
        case (Inl e)
        with pd Some show ?thesis
          by (simp add: compress_applicant_data_io_def try_except_def reads pure raise_def
              then_do_def compute_def print_def bind_result_def tick_def)
      next
        case (Inr app)
        from update_compressed_json_io_calm [OF w3(1,2), of a "dumps (app_dict app)"]
        obtain w' where u:
          "update_compressed_json_io a (dumps (app_dict app)) ?w3
             = (Inr (fst (update_compressed_json (db w) a (dumps (app_dict app)))), w')"
          "db w' = snd (update_compressed_json (db w) a (dumps (app_dict app)))"
          by (auto simp: w3(3))
        show ?thesis
        proof (cases "update_compressed_json (db w) a (dumps (app_dict app))")
          case (Pair success st')
          have "\<not> success \<Longrightarrow> st' = db w"
            using Pair
            by (auto simp: update_compressed_json_def update_fields_of_applicant_def
                caught_def split: sum.splits option.splits)
          with pd Some Inr u Pair show ?thesis
            by (simp add: compress_applicant_data_io_def try_except_def reads pure raise_def
                then_do_def compute_def print_def return_def bind_result_def)
        qed
      qed
    qed
  qed
qed

subsection \<open>Errors caught, logged and raised again\<close>








end
